theory Spec2Isabelle
  imports Main "HOL-Library.AList"
begin

section \<open>Python values and library calls\<close>

text \<open>
  The scraper (\<^verbatim>\<open>src/scraper.py\<close>, class \<^verbatim>\<open>ProductScraper\<close>) works on three kinds
  of data: Python strings, JSON values as returned by \<^verbatim>\<open>json.loads\<close>, and parsed
  HTML as returned by \<^verbatim>\<open>BeautifulSoup\<close>. Strings are modelled by \<^typ>\<open>string\<close>,
  that is, strings of characters with code points below 256; among these the
  regular-expression class \<^verbatim>\<open>\d\<close> is exactly \<^verbatim>\<open>0\<close>..\<^verbatim>\<open>9\<close>. Python floats
  are kept abstract as the type variable \<open>'f\<close>.
\<close>

datatype 'f pyval =
    PNone
  | PBool bool
  | PInt int
  | PFloat 'f
  | PStr string
  | PList "'f pyval list"
  | PDict "(string \<times> 'f pyval) list"

text \<open>A product record is a Python \<^verbatim>\<open>dict\<close> with string keys, in insertion order.\<close>

type_synonym 'f product = "(string \<times> 'f pyval) list"

text \<open>
  Calls into libraries that are not part of the repository are parameters of the model:
  \<^item> \<open>json_loads s\<close> is \<^verbatim>\<open>json.loads(s)\<close> on a string: it returns a value,
    raises \<^verbatim>\<open>json.JSONDecodeError\<close>, or raises another exception (such as
    \<^verbatim>\<open>RecursionError\<close> on a text nested too deeply);
  \<^item> \<open>str_other v\<close> is \<^verbatim>\<open>str(v)\<close> for a value that is not itself a string;
  \<^item> \<open>float_truthy x\<close> is \<^verbatim>\<open>bool(x)\<close> for a float;
  \<^item> \<open>to_float s\<close> is \<^verbatim>\<open>float(s)\<close> on a decimal token \<^verbatim>\<open>\d+(\.\d+)?\<close>;
  \<^item> \<open>urljoin b u\<close> is \<^verbatim>\<open>urllib.parse.urljoin(b, u)\<close>; \<open>None\<close> stands for the
    \<^verbatim>\<open>ValueError\<close> it raises on a malformed URL.
\<close>

datatype 'f loads_result = Loaded "'f pyval" | JSONDecodeError | OtherException

record 'f pylib =
  json_loads :: "string \<Rightarrow> 'f loads_result"
  str_other :: "'f pyval \<Rightarrow> string"
  float_truthy :: "'f \<Rightarrow> bool"
  to_float :: "string \<Rightarrow> 'f"
  urljoin :: "string \<Rightarrow> string \<Rightarrow> string option"

subsection \<open>Characters, \<^verbatim>\<open>str.strip\<close> and \<^verbatim>\<open>str(int)\<close>\<close>

definition is_digit :: "char \<Rightarrow> bool" where
  "is_digit c = (c \<in> set ''0123456789'')"

text \<open>The characters below 256 for which \<^verbatim>\<open>str.isspace\<close> holds.\<close>

definition is_space :: "char \<Rightarrow> bool" where
  "is_space c = (c \<in> set [CHR 0x09, CHR 0x0A, CHR 0x0B, CHR 0x0C, CHR 0x0D,
       CHR 0x1C, CHR 0x1D, CHR 0x1E, CHR 0x1F, CHR 0x20, CHR 0x85, CHR 0xA0])"

definition py_strip :: "string \<Rightarrow> string" where
  "py_strip s = rev (dropWhile is_space (rev (dropWhile is_space s)))"

definition digit_char :: "nat \<Rightarrow> char" where
  "digit_char d = ''0123456789'' ! d"

function str_nat :: "nat \<Rightarrow> string" where
  "str_nat n = (if n < 10 then [digit_char n] else str_nat (n div 10) @ [digit_char (n mod 10)])"
  by pat_completeness auto
termination
  by (relation "measure (\<lambda>n. n)") auto

declare str_nat.simps [simp del]

definition str_int :: "int \<Rightarrow> string" where
  "str_int i = (if i < 0 then CHR ''-'' # str_nat (nat (- i)) else str_nat (nat i))"

section \<open>Price normalizer\<close>

text \<open>
  \<^verbatim>\<open>_clean_price\<close>: the empty text gives the empty text; otherwise
  \<^verbatim>\<open>re.sub(r'[^\d.,]', '', price_text)\<close> followed by \<^verbatim>\<open>.strip()\<close>.
\<close>

definition price_char :: "char \<Rightarrow> bool" where
  "price_char c = (is_digit c \<or> c = CHR ''.'' \<or> c = CHR '','')"

definition clean_price :: "string \<Rightarrow> string" where
  "clean_price price_text =
     (if price_text = [] then [] else py_strip (filter price_char price_text))"

section \<open>Page URLs\<close>

text \<open>
  \<^verbatim>\<open>_build_page_url\<close>. The list \<^verbatim>\<open>patterns\<close> built in the source is never read and
  is left out.
\<close>

definition ends_with_slash :: "string \<Rightarrow> bool" where
  "ends_with_slash s = (s \<noteq> [] \<and> last s = CHR ''/'')"

definition build_page_url :: "string \<Rightarrow> int \<Rightarrow> string" where
  "build_page_url base_url page_number =
     (if page_number = 1 then base_url
      else if CHR ''?'' \<in> set base_url then base_url @ ''&page='' @ str_int page_number
      else if ends_with_slash base_url then base_url @ ''page/'' @ str_int page_number @ ''/''
      else base_url @ ''/page/'' @ str_int page_number @ ''/'')"

section \<open>Dictionaries and truthiness\<close>

text \<open>\<^verbatim>\<open>d.get(k, default)\<close> and \<^verbatim>\<open>d[k] = v\<close> on a dict kept in insertion order.\<close>

definition dict_get :: "(string \<times> 'v) list \<Rightarrow> string \<Rightarrow> 'v \<Rightarrow> 'v" where
  "dict_get d k dflt = (case map_of d k of Some v \<Rightarrow> v | None \<Rightarrow> dflt)"

definition dict_set :: "string \<Rightarrow> 'v \<Rightarrow> (string \<times> 'v) list \<Rightarrow> (string \<times> 'v) list" where
  "dict_set k v d = AList.update k v d"

definition keys :: "(string \<times> 'v) list \<Rightarrow> string list" where
  "keys d = map fst d"

text \<open>Python's \<^verbatim>\<open>bool(v)\<close>, as used by \<^verbatim>\<open>if v:\<close>.\<close>

fun truthy :: "'f pylib \<Rightarrow> 'f pyval \<Rightarrow> bool" where
  "truthy L PNone = False"
| "truthy L (PBool b) = b"
| "truthy L (PInt i) = (i \<noteq> 0)"
| "truthy L (PFloat x) = float_truthy L x"
| "truthy L (PStr s) = (s \<noteq> [])"
| "truthy L (PList xs) = (xs \<noteq> [])"
| "truthy L (PDict d) = (d \<noteq> [])"

text \<open>
  The idiom \<^verbatim>\<open>if product: products.append(product)\<close>: \<open>None\<close> and the empty dict
  are dropped.
\<close>

fun emit :: "'f product option \<Rightarrow> 'f product list" where
  "emit None = []"
| "emit (Some p) = (if p \<noteq> [] then [p] else [])"

section \<open>Parsed HTML\<close>

text \<open>
  An element is modelled by what the scraper can observe of it through
  \<^verbatim>\<open>BeautifulSoup\<close>: the result list of \<^verbatim>\<open>select\<close> for each selector string
  (absent selectors match nothing), the result of \<^verbatim>\<open>get_text(strip=True)\<close>, and its
  attributes. A parsed page adds the \<^verbatim>\<open>.string\<close> of every element found by
  \<^verbatim>\<open>find_all('script', type='application/ld+json')\<close>; \<^verbatim>\<open>.string\<close> is \<open>None\<close>
  for a script element without content.
\<close>

datatype elem =
  Elem (selects: "(string \<times> elem list) list") (get_text: string) (attrs: "(string \<times> string) list")

record soup =
  document :: elem
  ld_scripts :: "string option list"

definition select :: "elem \<Rightarrow> string \<Rightarrow> elem list" where
  "select e sel = (case map_of (selects e) sel of Some es \<Rightarrow> es | None \<Rightarrow> [])"

definition select_one :: "elem \<Rightarrow> string \<Rightarrow> elem option" where
  "select_one e sel = (case select e sel of [] \<Rightarrow> None | x # _ \<Rightarrow> Some x)"

definition attr :: "elem \<Rightarrow> string \<Rightarrow> string option" where
  "attr e k = map_of (attrs e) k"

text \<open>
  The loop \<^verbatim>\<open>for selector in selectors: e = x.select_one(selector); if e: ...; break\<close>
  finds the element of the first selector that matches.
\<close>

fun first_match :: "elem \<Rightarrow> string list \<Rightarrow> elem option" where
  "first_match e [] = None"
| "first_match e (s # ss) =
     (case select_one e s of Some x \<Rightarrow> Some x | None \<Rightarrow> first_match e ss)"

text \<open>The same loop over \<^verbatim>\<open>select\<close>: the matches of the first selector that has any.\<close>

fun first_nonempty :: "elem \<Rightarrow> string list \<Rightarrow> elem list" where
  "first_nonempty e [] = []"
| "first_nonempty e (s # ss) = (if select e s \<noteq> [] then select e s else first_nonempty e ss)"

text \<open>\<^verbatim>\<open>img.get('src') or img.get('data-src')\<close>.\<close>

definition img_src_of :: "elem \<Rightarrow> string option" where
  "img_src_of img =
     (case attr img ''src'' of
        Some s \<Rightarrow> (if s \<noteq> [] then Some s else attr img ''data-src'')
      | None \<Rightarrow> attr img ''data-src'')"

section \<open>Structured-data extractor\<close>

text \<open>
  \<^verbatim>\<open>_parse_json_ld_product\<close>. Every exception inside the function is caught and
  turns the result into \<^verbatim>\<open>None\<close>: calling \<^verbatim>\<open>.get\<close> on a value that is not a
  dict raises \<^verbatim>\<open>AttributeError\<close>.
\<close>

definition brand_of :: "'f pylib \<Rightarrow> (string \<times> 'f pyval) list \<Rightarrow> 'f pyval" where
  "brand_of L d =
     (case map_of d ''brand'' of
        Some (PDict b) \<Rightarrow> dict_get b ''name'' (PStr [])
      | Some (PStr s) \<Rightarrow> PStr s
      | Some v \<Rightarrow> PStr (str_other L v)
      | None \<Rightarrow> PStr [])"

definition json_ld_offers ::
  "'f pylib \<Rightarrow> (string \<times> 'f pyval) list \<Rightarrow> 'f product \<Rightarrow> 'f product option" where
  "json_ld_offers L d product =
     (let offers = dict_get d ''offers'' (PDict []) in
      if truthy L offers then
        (let offers = (case offers of PList (x # _) \<Rightarrow> x | _ \<Rightarrow> offers) in
         case offers of
           PDict od \<Rightarrow>
             Some (dict_set ''availability'' (dict_get od ''availability'' (PStr []))
                  (dict_set ''currency'' (dict_get od ''priceCurrency'' (PStr []))
                  (dict_set ''price'' (dict_get od ''price'' (PStr [])) product)))
         | _ \<Rightarrow> None)
      else Some product)"

definition json_ld_images :: "(string \<times> 'f pyval) list \<Rightarrow> 'f product \<Rightarrow> 'f product" where
  "json_ld_images d product =
     (case map_of d ''image'' of
        None \<Rightarrow> product
      | Some (PStr s) \<Rightarrow>
          dict_set ''main_image_url'' (PStr s) (dict_set ''image_urls'' (PList [PStr s]) product)
      | Some (PList imgs) \<Rightarrow>
          dict_set ''main_image_url'' (case imgs of [] \<Rightarrow> PStr [] | x # _ \<Rightarrow> x)
            (dict_set ''image_urls'' (PList imgs) product)
      | Some _ \<Rightarrow> product)"

definition json_ld_rating ::
  "'f pylib \<Rightarrow> (string \<times> 'f pyval) list \<Rightarrow> 'f product \<Rightarrow> 'f product option" where
  "json_ld_rating L d product =
     (let rating_data = dict_get d ''aggregateRating'' (PDict []) in
      if truthy L rating_data then
        (case rating_data of
           PDict rd \<Rightarrow>
             Some (dict_set ''review_count'' (dict_get rd ''reviewCount'' PNone)
                  (dict_set ''rating'' (dict_get rd ''ratingValue'' PNone) product))
         | _ \<Rightarrow> None)
      else Some product)"

definition parse_json_ld_product :: "'f pylib \<Rightarrow> 'f pyval \<Rightarrow> 'f product option" where
  "parse_json_ld_product L data =
     (case data of
        PDict d \<Rightarrow>
          if map_of d ''@type'' = Some (PStr ''Product'') then
            (let product =
               [(''title'', dict_get d ''name'' (PStr [])),
                (''description'', dict_get d ''description'' (PStr [])),
                (''brand'', brand_of L d),
                (''sku'', dict_get d ''sku'' (PStr [])),
                (''image_urls'', PList [])]
             in case json_ld_offers L d product of
                  None \<Rightarrow> None
                | Some product \<Rightarrow> json_ld_rating L d (json_ld_images d product))
          else None
      | _ \<Rightarrow> None)"

text \<open>
  \<^verbatim>\<open>_extract_json_ld_products\<close>, as a loop over the \<^verbatim>\<open>.string\<close> of the script
  elements. \<^verbatim>\<open>json.JSONDecodeError\<close> is caught inside the loop (\<^verbatim>\<open>continue\<close>).
  \<^verbatim>\<open>json.loads(None)\<close> raises \<^verbatim>\<open>TypeError\<close>, which only the handler around the
  whole loop catches: the loop ends there and the products collected so far are returned.
  The same happens when \<^verbatim>\<open>json.loads\<close> raises any other exception on a text.
\<close>

fun json_ld_loop :: "'f pylib \<Rightarrow> string option list \<Rightarrow> 'f product list \<Rightarrow> 'f product list" where
  "json_ld_loop L [] products = products"
| "json_ld_loop L (None # scripts) products = products"
| "json_ld_loop L (Some s # scripts) products =
     (case json_loads L s of
        JSONDecodeError \<Rightarrow> json_ld_loop L scripts products
      | OtherException \<Rightarrow> products
      | Loaded (PList items) \<Rightarrow>
          json_ld_loop L scripts (products @ concat (map (\<lambda>item. emit (parse_json_ld_product L item)) items))
      | Loaded data \<Rightarrow> json_ld_loop L scripts (products @ emit (parse_json_ld_product L data)))"

definition extract_json_ld_products :: "'f pylib \<Rightarrow> soup \<Rightarrow> 'f product list" where
  "extract_json_ld_products L sp = json_ld_loop L (ld_scripts sp) []"

section \<open>Container-based extractor\<close>

definition product_selectors :: "string list" where
  "product_selectors =
     [''.product-item'', ''.product'', ''.product-card'', ''.woocommerce-product'', ''.shop-item'',
      ''.product-box'', ''[data-product-id]'', ''.product-tile'', ''.item-product'']"

definition container_title_selectors :: "string list" where
  "container_title_selectors =
     [''.product-title'', ''.product-name'', ''h2'', ''h3'', ''h4'', ''.title'', ''.name'',
      ''[data-product-title]'']"

definition container_price_selectors :: "string list" where
  "container_price_selectors =
     [''.price'', ''.product-price'', ''.cost'', ''.amount'', ''[data-price]'', ''.price-current'',
      ''.sale-price'']"

definition original_price_selectors :: "string list" where
  "original_price_selectors =
     [''.original-price'', ''.regular-price'', ''.was-price'', ''.price-old'', ''.strike-through'']"

definition container_defaults :: "'f product" where
  "container_defaults =
     [(''title'', PStr []), (''description'', PStr []), (''price'', PStr []),
      (''original_price'', PStr []), (''brand'', PStr []), (''category'', PStr []),
      (''image_urls'', PList []), (''main_image_url'', PStr []), (''rating'', PNone),
      (''review_count'', PNone)]"

text \<open>
  \<^verbatim>\<open>re.search(r'(\d+(?:\.\d+)?)', text)\<close>: the leftmost maximal run of digits, with
  a fraction when a period and at least one digit follow it.
\<close>

fun first_number :: "string \<Rightarrow> string option" where
  "first_number [] = None"
| "first_number (c # cs) =
     (if is_digit c then
        (let ds = takeWhile is_digit (c # cs);
             rest = dropWhile is_digit (c # cs);
             frac = (case rest of
                       [] \<Rightarrow> []
                     | d # r \<Rightarrow> if d = CHR ''.'' \<and> takeWhile is_digit r \<noteq> []
                               then d # takeWhile is_digit r else [])
         in Some (ds @ frac))
      else first_number cs)"

text \<open>The field steps of \<^verbatim>\<open>_extract_product_from_container\<close>, in source order.\<close>

definition set_text_field ::
  "string \<Rightarrow> (string \<Rightarrow> string) \<Rightarrow> elem option \<Rightarrow> 'f product \<Rightarrow> 'f product" where
  "set_text_field k f found product =
     (case found of Some e \<Rightarrow> dict_set k (PStr (f (get_text e))) product | None \<Rightarrow> product)"

definition container_image :: "'f pylib \<Rightarrow> elem \<Rightarrow> string \<Rightarrow> 'f product \<Rightarrow> 'f product option" where
  "container_image L container base_url product =
     (case select_one container ''img'' of
        None \<Rightarrow> Some product
      | Some img_elem \<Rightarrow>
          (case img_src_of img_elem of
             None \<Rightarrow> Some product
           | Some img_src \<Rightarrow>
               if img_src = [] then Some product
               else (case urljoin L base_url img_src of
                       None \<Rightarrow> None
                     | Some u \<Rightarrow>
                         Some (dict_set ''image_urls'' (PList [PStr u])
                              (dict_set ''main_image_url'' (PStr u) product)))))"

definition container_rating :: "'f pylib \<Rightarrow> elem \<Rightarrow> 'f product \<Rightarrow> 'f product" where
  "container_rating L container product =
     (case select_one container ''.rating, .stars, [data-rating]'' of
        None \<Rightarrow> product
      | Some rating_elem \<Rightarrow>
          (case first_number (get_text rating_elem) of
             None \<Rightarrow> product
           | Some tok \<Rightarrow> dict_set ''rating'' (PFloat (to_float L tok)) product))"

text \<open>
  \<^verbatim>\<open>return product if product['title'] else None\<close>; a missing key would raise
  \<^verbatim>\<open>KeyError\<close>, which the handler turns into \<^verbatim>\<open>None\<close>.
\<close>

definition if_titled :: "'f pylib \<Rightarrow> 'f product \<Rightarrow> 'f product option" where
  "if_titled L product =
     (case map_of product ''title'' of
        Some t \<Rightarrow> if truthy L t then Some product else None
      | None \<Rightarrow> None)"

definition extract_product_from_container ::
  "'f pylib \<Rightarrow> elem \<Rightarrow> string \<Rightarrow> 'f product option" where
  "extract_product_from_container L container base_url =
     (let product = container_defaults;
          product = set_text_field ''title'' (\<lambda>t. t)
                      (first_match container container_title_selectors) product;
          product = set_text_field ''price'' clean_price
                      (first_match container container_price_selectors) product;
          product = set_text_field ''original_price'' clean_price
                      (first_match container original_price_selectors) product
      in case container_image L container base_url product of
           None \<Rightarrow> None
         | Some product \<Rightarrow> if_titled L (container_rating L container product))"

definition extract_container_products :: "'f pylib \<Rightarrow> soup \<Rightarrow> string \<Rightarrow> 'f product list" where
  "extract_container_products L sp base_url =
     concat (map (\<lambda>container. emit (extract_product_from_container L container base_url))
                 (take 20 (first_nonempty (document sp) product_selectors)))"

section \<open>Single-product-page extractor\<close>

definition single_title_selectors :: "string list" where
  "single_title_selectors =
     [''h1.product-title'', ''h1.entry-title'', ''h1.product_title'', ''h1'', ''.product-name h1'',
      ''.product-title'']"

definition desc_selectors :: "string list" where
  "desc_selectors =
     [''.product-description'', ''.product-details'', ''.entry-content'', ''.product-summary'',
      ''.short-description'', ''#tab-description'']"

definition single_price_selectors :: "string list" where
  "single_price_selectors =
     [''.price .amount'', ''.product-price'', ''.price-current'', ''.sale-price'',
      ''.woocommerce-Price-amount'']"

definition img_selectors :: "string list" where
  "img_selectors =
     [''.product-images img'', ''.product-gallery img'', ''.woocommerce-product-gallery img'']"

definition single_defaults :: "'f product" where
  "single_defaults =
     [(''title'', PStr []), (''description'', PStr []), (''price'', PStr []),
      (''original_price'', PStr []), (''brand'', PStr []), (''category'', PStr []),
      (''sku'', PStr []), (''image_urls'', PList []), (''main_image_url'', PStr []),
      (''rating'', PNone), (''review_count'', PNone)]"

text \<open>
  The gallery loop: every image with a source is resolved and appended; one
  \<^verbatim>\<open>urljoin\<close> that raises ends the whole extraction.
\<close>

fun gallery_urls :: "'f pylib \<Rightarrow> string \<Rightarrow> elem list \<Rightarrow> string list option" where
  "gallery_urls L url [] = Some []"
| "gallery_urls L url (img # imgs) =
     (case img_src_of img of
        None \<Rightarrow> gallery_urls L url imgs
      | Some img_src \<Rightarrow>
          if img_src = [] then gallery_urls L url imgs
          else (case urljoin L url img_src of
                  None \<Rightarrow> None
                | Some full_url \<Rightarrow> map_option ((#) full_url) (gallery_urls L url imgs)))"

definition single_images :: "'f pylib \<Rightarrow> soup \<Rightarrow> string \<Rightarrow> 'f product \<Rightarrow> 'f product option" where
  "single_images L sp url product =
     (case first_nonempty (document sp) img_selectors of
        [] \<Rightarrow> Some product
      | img_elements \<Rightarrow>
          (case gallery_urls L url (take 5 img_elements) of
             None \<Rightarrow> None
           | Some [] \<Rightarrow> Some product
           | Some (u # us) \<Rightarrow>
               Some (dict_set ''main_image_url'' (PStr u)
                    (dict_set ''image_urls'' (PList (map PStr (u # us))) product))))"

definition extract_single_product :: "'f pylib \<Rightarrow> soup \<Rightarrow> string \<Rightarrow> 'f product option" where
  "extract_single_product L sp url =
     (let product = single_defaults;
          product = set_text_field ''title'' (\<lambda>t. t)
                      (first_match (document sp) single_title_selectors) product;
          product = set_text_field ''description'' (take 1000)
                      (first_match (document sp) desc_selectors) product;
          product = set_text_field ''price'' clean_price
                      (first_match (document sp) single_price_selectors) product
      in case single_images L sp url product of
           None \<Rightarrow> None
         | Some product \<Rightarrow>
             if_titled L (set_text_field ''sku'' (\<lambda>t. t)
                            (select_one (document sp) ''.sku, [data-sku]'') product))"

section \<open>Pagination\<close>

text \<open>
  \<^verbatim>\<open>re.search\<close> for a pattern that is one of several literal prefixes followed by
  \<^verbatim>\<open>(\d+)\<close>: the leftmost position where a prefix and at least one digit match; the
  group is the maximal run of digits there.
\<close>

definition digits_after :: "string \<Rightarrow> string \<Rightarrow> string option" where
  "digits_after p s =
     (if take (length p) s = p \<and> takeWhile is_digit (drop (length p) s) \<noteq> []
      then Some (takeWhile is_digit (drop (length p) s)) else None)"

fun match_here :: "string list \<Rightarrow> string \<Rightarrow> string option" where
  "match_here [] s = None"
| "match_here (p # ps) s =
     (case digits_after p s of Some ds \<Rightarrow> Some ds | None \<Rightarrow> match_here ps s)"

fun search_digits :: "string list \<Rightarrow> string \<Rightarrow> string option" where
  "search_digits alts [] = None"
| "search_digits alts (c # cs) =
     (case match_here alts (c # cs) of Some ds \<Rightarrow> Some ds | None \<Rightarrow> search_digits alts cs)"

text \<open>\<^verbatim>\<open>int(s)\<close> on a string of digits.\<close>

definition digit_val :: "char \<Rightarrow> int" where
  "digit_val c = int (length (takeWhile (\<lambda>d. d \<noteq> c) ''0123456789''))"

definition int_of_digits :: "string \<Rightarrow> int" where
  "int_of_digits ds = foldl (\<lambda>n c. 10 * n + digit_val c) 0 ds"

text \<open>
  \<^verbatim>\<open>_extract_page_number_from_url\<close>, with the patterns \<^verbatim>\<open>/page/(\d+)\<close>,
  \<^verbatim>\<open>[?&]page=(\d+)\<close> and \<^verbatim>\<open>[?&]paged=(\d+)\<close> tried in this order.
\<close>

definition extract_page_number_from_url :: "string \<Rightarrow> int" where
  "extract_page_number_from_url url =
     (case search_digits [''/page/''] url of
        Some ds \<Rightarrow> int_of_digits ds
      | None \<Rightarrow>
          (case search_digits [''?page='', ''&page=''] url of
             Some ds \<Rightarrow> int_of_digits ds
           | None \<Rightarrow>
               (case search_digits [''?paged='', ''&paged=''] url of
                  Some ds \<Rightarrow> int_of_digits ds
                | None \<Rightarrow> 1)))"

definition next_indicators :: "string list" where
  \<open>next_indicators =
     [''a[rel="next"]'', ''a.next'', ''a.next-page'', ''.pagination a.next'',
      ''.wp-pagenavi a.nextpostslink'', ''.woocommerce-pagination a.next'', ''.page-numbers.next'',
      ''a[aria-label*="Next"]'', ''a[title*="Next"]'']\<close>

definition has_next_page :: "soup \<Rightarrow> string \<Rightarrow> bool" where
  "has_next_page sp current_url =
     (list_ex (\<lambda>indicator. select_one (document sp) indicator \<noteq> None) next_indicators \<or>
      (let page_links = select (document sp) ''.pagination a, .page-numbers a, .wp-pagenavi a'';
           current_page_num = extract_page_number_from_url current_url
       in list_ex (\<lambda>link.
            let href = (case attr link ''href'' of Some h \<Rightarrow> h | None \<Rightarrow> [])
            in href \<noteq> [] \<and>
               (let page_num = extract_page_number_from_url href
                in page_num \<noteq> 0 \<and> page_num > current_page_num))
          page_links))"

section \<open>Strategy selection for one page\<close>

text \<open>
  The three strategies as they are tried on one parsed page in \<^verbatim>\<open>scrape_products\<close>
  and in \<^verbatim>\<open>scrape_products_with_progress\<close> (the two bodies are the same here). The
  first component of the result records which extractors were called, in order.
\<close>

datatype strategy = JsonLd | Container | Single

definition page_strategies ::
  "'f pylib \<Rightarrow> soup \<Rightarrow> string \<Rightarrow> int \<Rightarrow> strategy list \<times> 'f product list" where
  "page_strategies L sp page_url current_page =
     (let json_ld_products = extract_json_ld_products L sp;
          ran = [JsonLd];
          page_products = (if json_ld_products \<noteq> [] then json_ld_products else []);
          (ran, page_products) =
             (if page_products = []
              then (ran @ [Container], page_products @ extract_container_products L sp page_url)
              else (ran, page_products));
          (ran, page_products) =
             (if page_products = [] \<and> current_page = 1
              then (ran @ [Single], page_products @ emit (extract_single_product L sp page_url))
              else (ran, page_products))
      in (ran, page_products))"

definition page_products :: "'f pylib \<Rightarrow> soup \<Rightarrow> string \<Rightarrow> int \<Rightarrow> 'f product list" where
  "page_products L sp page_url current_page = snd (page_strategies L sp page_url current_page)"

section \<open>The pagination loops\<close>

text \<open>
  A fetch (\<^verbatim>\<open>session.get\<close>, \<^verbatim>\<open>raise_for_status\<close>, \<^verbatim>\<open>BeautifulSoup\<close>)
  is a function from the URL to the parsed page; \<open>None\<close> stands for any exception of the
  request. A run returns the list of the URLs it requested, in order, together with either
  the exception it raised or the list it returned. The pause \<^verbatim>\<open>time.sleep(1)\<close> and
  the logging calls have no effect on either and are left out.
\<close>

datatype error = FetchError | QueryError | CommitError | RollbackError

type_synonym web = "string \<Rightarrow> soup option"

type_synonym 'f outcome = "string list \<times> (error + 'f product list)"

text \<open>How one iteration of the \<^verbatim>\<open>while\<close> loop of \<^verbatim>\<open>scrape_products\<close> ends.\<close>

datatype 'f ctl =
    Raise error "string list"
  | Break "'f product list" "string list"
  | Next "'f product list" "string list"

definition scrape_page ::
  "'f pylib \<Rightarrow> web \<Rightarrow> string \<Rightarrow> int \<Rightarrow> 'f product list \<Rightarrow> string list \<Rightarrow> 'f ctl" where
  "scrape_page L W url current_page all_products fetched =
     (let page_url = build_page_url url current_page;
          fetched = fetched @ [page_url]
      in case W page_url of
           None \<Rightarrow> Raise FetchError fetched
         | Some sp \<Rightarrow>
             (let page_products = page_products L sp page_url current_page
              in if page_products = [] then Break all_products fetched
                 else (let all_products = all_products @ page_products
                       in if \<not> has_next_page sp page_url then Break all_products fetched
                          else Next all_products fetched)))"

function scrape_loop ::
  "'f pylib \<Rightarrow> web \<Rightarrow> string \<Rightarrow> int \<Rightarrow> 'f product list \<Rightarrow> string list \<Rightarrow> 'f outcome" where
  "scrape_loop L W url current_page all_products fetched =
     (if current_page \<le> 10 then
        (case scrape_page L W url current_page all_products fetched of
           Raise e f \<Rightarrow> (f, Inl e)
         | Break a f \<Rightarrow> (f, Inr a)
         | Next a f \<Rightarrow> scrape_loop L W url (current_page + 1) a f)
      else (fetched, Inr all_products))"
  by pat_completeness auto
termination
  by (relation "measure (\<lambda>(L, W, url, current_page, a, f). nat (11 - current_page))") auto

declare scrape_loop.simps [simp del]

definition scrape_products :: "'f pylib \<Rightarrow> web \<Rightarrow> string \<Rightarrow> 'f outcome" where
  "scrape_products L W url = scrape_loop L W url 1 [] []"

section \<open>The progress-tracked loop\<close>

text \<open>
  \<^verbatim>\<open>scrape_products_with_progress\<close> talks to the job store. What the store
  answers is not decided by the scraper, so it is a parameter of the run:
  \<^item> \<open>query_get D job_id n\<close> is the result of \<^verbatim>\<open>ScrapingJob.query.get(job_id)\<close>
    at the start of the iteration for page \<open>n\<close>: the call raises, finds no job, or
    finds a job with the given \<^verbatim>\<open>status\<close>;
  \<^item> \<open>commit_ok D site n\<close> tells whether the \<^verbatim>\<open>db.session.commit()\<close> at the given
    place of the iteration for page \<open>n\<close> succeeds, and \<open>rollback_ok D site n\<close> whether
    the \<^verbatim>\<open>db.session.rollback()\<close> of its handler does.
  The scraper only assigns progress fields of the job (never \<^verbatim>\<open>status\<close>); these
  assignments reach the store through the commits and do not influence the run.
\<close>

datatype job_lookup = QueryRaises | NoJob | Job string

datatype commit_site = PageStart | PageFound | NoNext | Final

record job_store =
  query_get :: "int \<Rightarrow> int \<Rightarrow> job_lookup"
  commit_ok :: "commit_site \<Rightarrow> int \<Rightarrow> bool"
  rollback_ok :: "commit_site \<Rightarrow> int \<Rightarrow> bool"

text \<open>\<^verbatim>\<open>if job:\<close> and \<^verbatim>\<open>job and job.status in ['cancelled', 'paused']\<close>.\<close>

definition job_present :: "job_lookup \<Rightarrow> bool" where
  "job_present job = (case job of Job _ \<Rightarrow> True | _ \<Rightarrow> False)"

definition stop_requested :: "job_lookup \<Rightarrow> bool" where
  "stop_requested job =
     (case job of Job status \<Rightarrow> status \<in> set [''cancelled'', ''paused''] | _ \<Rightarrow> False)"

text \<open>
  A commit inside \<^verbatim>\<open>try: ... except Exception: ...; db.session.rollback()\<close>, and a
  commit outside any handler. \<open>Some e\<close> is an exception that leaves the loop.
\<close>

definition guarded_commit :: "job_store \<Rightarrow> commit_site \<Rightarrow> int \<Rightarrow> error option" where
  "guarded_commit D site n =
     (if commit_ok D site n then None
      else if rollback_ok D site n then None else Some RollbackError)"

definition plain_commit :: "job_store \<Rightarrow> commit_site \<Rightarrow> int \<Rightarrow> error option" where
  "plain_commit D site n = (if commit_ok D site n then None else Some CommitError)"

text \<open>How one iteration of the loop of \<^verbatim>\<open>scrape_products_with_progress\<close> ends.\<close>

datatype 'f pctl =
    PRaise error "string list"
  | PReturn "'f product list" "string list"
  | PBreak "'f product list" "string list" job_lookup
  | PNext "'f product list" "string list" job_lookup

definition progress_page ::
  "'f pylib \<Rightarrow> web \<Rightarrow> job_store \<Rightarrow> string \<Rightarrow> int \<Rightarrow> int \<Rightarrow> 'f product list \<Rightarrow> string list
     \<Rightarrow> 'f pctl" where
  "progress_page L W D url job_id current_page all_products fetched =
     (let job = query_get D job_id current_page
      in if job = QueryRaises then PRaise QueryError fetched
         else if stop_requested job then PReturn all_products fetched
         else
           (case (if job_present job then guarded_commit D PageStart current_page else None) of
              Some e \<Rightarrow> PRaise e fetched
            | None \<Rightarrow>
               (let page_url = build_page_url url current_page;
                    fetched = fetched @ [page_url]
                in case W page_url of
                     None \<Rightarrow> PRaise FetchError fetched
                   | Some sp \<Rightarrow>
                      (let page_products = page_products L sp page_url current_page
                       in if page_products = [] then PBreak all_products fetched job
                          else
                           (let all_products = all_products @ page_products
                            in case (if job_present job
                                     then guarded_commit D PageFound current_page else None) of
                                 Some e \<Rightarrow> PRaise e fetched
                               | None \<Rightarrow>
                                  if \<not> has_next_page sp page_url then
                                    (case (if job_present job
                                           then plain_commit D NoNext current_page else None) of
                                       Some e \<Rightarrow> PRaise e fetched
                                     | None \<Rightarrow> PBreak all_products fetched job)
                                  else PNext all_products fetched job)))))"

text \<open>The final update after the loop: one more commit outside any handler.\<close>

definition final_update ::
  "job_store \<Rightarrow> job_lookup \<Rightarrow> int \<Rightarrow> 'f product list \<Rightarrow> string list \<Rightarrow> 'f outcome" where
  "final_update D job current_page all_products fetched =
     (case (if job_present job then plain_commit D Final current_page else None) of
        Some e \<Rightarrow> (fetched, Inl e)
      | None \<Rightarrow> (fetched, Inr all_products))"

function progress_loop ::
  "'f pylib \<Rightarrow> web \<Rightarrow> job_store \<Rightarrow> string \<Rightarrow> int \<Rightarrow> int \<Rightarrow> 'f product list \<Rightarrow> string list
     \<Rightarrow> job_lookup \<Rightarrow> 'f outcome" where
  "progress_loop L W D url job_id current_page all_products fetched job =
     (if current_page \<le> 10 then
        (case progress_page L W D url job_id current_page all_products fetched of
           PRaise e f \<Rightarrow> (f, Inl e)
         | PReturn a f \<Rightarrow> (f, Inr a)
         | PBreak a f j \<Rightarrow> final_update D j current_page a f
         | PNext a f j \<Rightarrow> progress_loop L W D url job_id (current_page + 1) a f j)
      else final_update D job current_page all_products fetched)"
  by pat_completeness auto
termination
  by (relation "measure (\<lambda>(L, W, D, url, job_id, current_page, a, f, j). nat (11 - current_page))")
    auto

declare progress_loop.simps [simp del]

text \<open>
  The variable \<^verbatim>\<open>job\<close> is first assigned inside the loop, and the loop body runs at
  least once, so the value it is started with here is never read.
\<close>

definition scrape_products_with_progress ::
  "'f pylib \<Rightarrow> web \<Rightarrow> job_store \<Rightarrow> string \<Rightarrow> int \<Rightarrow> 'f outcome" where
  "scrape_products_with_progress L W D url job_id = progress_loop L W D url job_id 1 [] [] NoJob"

section \<open>Keys of a structured-data record\<close>

text \<open>
  The keys that \<^verbatim>\<open>_parse_json_ld_product\<close> adds to a record beyond the five it
  always sets: those of the \<^verbatim>\<open>offers\<close> block, of the \<^verbatim>\<open>image\<close> block and of
  the \<^verbatim>\<open>aggregateRating\<close> block, each only when the block is entered.
\<close>

definition offers_keys :: "'f pylib \<Rightarrow> (string \<times> 'f pyval) list \<Rightarrow> string list" where
  "offers_keys L d =
     (if truthy L (dict_get d ''offers'' (PDict [])) then [''price'', ''currency'', ''availability''] else [])"

definition image_keys :: "(string \<times> 'f pyval) list \<Rightarrow> string list" where
  "image_keys d =
     (case map_of d ''image'' of
        Some (PStr s) \<Rightarrow> [''main_image_url'']
      | Some (PList imgs) \<Rightarrow> [''main_image_url'']
      | _ \<Rightarrow> [])"

definition rating_keys :: "'f pylib \<Rightarrow> (string \<times> 'f pyval) list \<Rightarrow> string list" where
  "rating_keys L d =
     (if truthy L (dict_get d ''aggregateRating'' (PDict [])) then [''rating'', ''review_count''] else [])"

section \<open>What the selector extractors locate\<close>

text \<open>
  Names for what \<^verbatim>\<open>_extract_product_from_container\<close> and
  \<^verbatim>\<open>_extract_single_product\<close> find on a page, used to state which value each field
  of a record holds: an image source that passes \<^verbatim>\<open>if img_src:\<close>, the source of the
  container's first \<^verbatim>\<open>img\<close>, the number in the text of the container's rating
  element, and the sources of the first five gallery images of a detail page.
\<close>

definition nonempty_src :: "elem \<Rightarrow> string option" where
  "nonempty_src img =
     (case img_src_of img of Some s \<Rightarrow> if s = [] then None else Some s | None \<Rightarrow> None)"

definition container_img_src :: "elem \<Rightarrow> string option" where
  "container_img_src container =
     (case select_one container ''img'' of None \<Rightarrow> None | Some img \<Rightarrow> nonempty_src img)"

definition rating_token :: "elem \<Rightarrow> string option" where
  "rating_token container =
     (case select_one container ''.rating, .stars, [data-rating]'' of
        None \<Rightarrow> None
      | Some rating_elem \<Rightarrow> first_number (get_text rating_elem))"

definition gallery_sources :: "soup \<Rightarrow> string list" where
  "gallery_sources sp =
     List.map_filter nonempty_src (take 5 (first_nonempty (document sp) img_selectors))"

section \<open>Example pages\<close>

text \<open>
  Concrete inputs on which the functions above are evaluated below. The example library
  parses three script texts, fails with another exception than a decode error on a text of
  100000 nested brackets, rejects every other text as not JSON, renders floats by their
  token, and resolves every URL to itself.
\<close>

definition widget_json :: string where
  \<open>widget_json = ''{"@type":"Product","name":"Widget","offers":{"price":"9.99","priceCurrency":"USD"},"image":"https://x/img.png"}''\<close>

definition bare_json :: string where
  \<open>bare_json = ''{"@type":"Product","name":"Widget"}''\<close>

definition untitled_json :: string where
  \<open>untitled_json = ''{"@type":"Product","sku":"A-1"}''\<close>

definition deep_json :: string where
  "deep_json = replicate 100000 (CHR ''['') @ replicate 100000 (CHR '']'')"

definition example_lib :: "string pylib" where
  "example_lib =
     \<lparr> json_loads = (\<lambda>s.
         if s = widget_json then
           Loaded (PDict [(''@type'', PStr ''Product''), (''name'', PStr ''Widget''),
                        (''offers'', PDict [(''price'', PStr ''9.99''), (''priceCurrency'', PStr ''USD'')]),
                        (''image'', PStr ''https://x/img.png'')])
         else if s = bare_json then
           Loaded (PDict [(''@type'', PStr ''Product''), (''name'', PStr ''Widget'')])
         else if s = untitled_json then
           Loaded (PDict [(''@type'', PStr ''Product''), (''sku'', PStr ''A-1'')])
         else if s = deep_json then OtherException
         else JSONDecodeError),
       str_other = (\<lambda>v. ''?''),
       float_truthy = (\<lambda>x. x \<noteq> ''0''),
       to_float = (\<lambda>s. s),
       urljoin = (\<lambda>b u. Some u) \<rparr>"

definition tile :: elem where
  "tile = Elem [(''h2'', [Elem [] ''Gadget'' []]), (''.price'', [Elem [] ''$5.00'' []])]
               ''Gadget$5.00'' []"

definition untitled_tile :: elem where
  "untitled_tile = Elem [(''.price'', [Elem [] ''$7.00'' []])] ''$7.00'' []"

definition plain_tile :: elem where
  "plain_tile =
     Elem [(''h2'', [Elem [] ''Plain'' []]), (''img'', [Elem [] [] [(''alt'', ''photo'')]]),
           (''.rating, .stars, [data-rating]'', [Elem [] ''no reviews yet'' []])]
          ''Plainno reviews yet'' []"

definition rated_tile :: elem where
  "rated_tile =
     Elem [(''h2'', [Elem [] ''Rated'' []]), (''.price'', [Elem [] ''$12.50 USD'' []]),
           (''img'', [Elem [] [] [(''src'', []), (''data-src'', ''/img/rated.png'')]]),
           (''.rating, .stars, [data-rating]'', [Elem [] ''Rated 4.5 out of 5'' []])]
          ''Rated$12.50 USDRated 4.5 out of 5'' []"

definition plain_product :: "string product" where
  "plain_product =
     [(''title'', PStr ''Plain''), (''description'', PStr []), (''price'', PStr []),
      (''original_price'', PStr []), (''brand'', PStr []), (''category'', PStr []),
      (''image_urls'', PList []), (''main_image_url'', PStr []), (''rating'', PNone),
      (''review_count'', PNone)]"

definition rated_product :: "string product" where
  "rated_product =
     [(''title'', PStr ''Rated''), (''description'', PStr []), (''price'', PStr ''12.50''),
      (''original_price'', PStr []), (''brand'', PStr []), (''category'', PStr []),
      (''image_urls'', PList [PStr ''/img/rated.png'']), (''main_image_url'', PStr ''/img/rated.png''),
      (''rating'', PFloat ''4.5''), (''review_count'', PNone)]"

definition page_gallery :: soup where
  "page_gallery =
     \<lparr> document =
         Elem [(''h1'', [Elem [] ''Gizmo'' []]),
               (''.product-gallery img'', [Elem [] [] [(''alt'', ''front'')], Elem [] [] []])]
              ''Gizmo'' [],
       ld_scripts = [] \<rparr>"

definition next_link :: elem where
  "next_link = Elem [] ''Next'' [(''href'', ''/cat/page/2/'')]"

definition listing_doc :: elem where
  "listing_doc = Elem [(''.product'', [tile, untitled_tile]), (''a.next'', [next_link])] [] []"

definition page_both :: soup where
  "page_both = \<lparr> document = listing_doc, ld_scripts = [Some widget_json] \<rparr>"

definition page_listing :: soup where
  "page_listing = \<lparr> document = listing_doc, ld_scripts = [] \<rparr>"

definition page_empty_next :: soup where
  "page_empty_next = \<lparr> document = Elem [(''a.next'', [next_link])] [] [], ld_scripts = [] \<rparr>"

definition page_detail :: soup where
  "page_detail = \<lparr> document = Elem [(''h1'', [Elem [] ''Gizmo'' []])] ''Gizmo'' [], ld_scripts = [] \<rparr>"

definition page_widget :: soup where
  "page_widget = \<lparr> document = Elem [] [] [], ld_scripts = [Some widget_json] \<rparr>"

definition page_widget_next :: soup where
  "page_widget_next =
     \<lparr> document = Elem [(''a.next'', [next_link])] [] [], ld_scripts = [Some bare_json] \<rparr>"

definition page_untitled :: soup where
  "page_untitled = \<lparr> document = Elem [] [] [], ld_scripts = [Some untitled_json] \<rparr>"

definition page_bare :: soup where
  "page_bare = \<lparr> document = Elem [] [] [], ld_scripts = [Some bare_json] \<rparr>"

definition page_bad_script :: soup where
  "page_bad_script =
     \<lparr> document = Elem [] [] [], ld_scripts = [Some ''{bad'', Some widget_json] \<rparr>"

definition page_deep_script :: soup where
  "page_deep_script = \<lparr> document = Elem [] [] [], ld_scripts = [Some deep_json, Some widget_json] \<rparr>"

definition page_empty_script :: soup where
  "page_empty_script = \<lparr> document = Elem [] [] [], ld_scripts = [None, Some widget_json] \<rparr>"

definition untitled_product :: "string product" where
  "untitled_product =
     [(''title'', PStr []), (''description'', PStr []), (''brand'', PStr []),
      (''sku'', PStr ''A-1''), (''image_urls'', PList [])]"

definition widget_product :: "string product" where
  "widget_product =
     [(''title'', PStr ''Widget''), (''description'', PStr []), (''brand'', PStr []),
      (''sku'', PStr []), (''image_urls'', PList [PStr ''https://x/img.png'']),
      (''price'', PStr ''9.99''), (''currency'', PStr ''USD''), (''availability'', PStr []),
      (''main_image_url'', PStr ''https://x/img.png'')]"

definition bare_product :: "string product" where
  "bare_product =
     [(''title'', PStr ''Widget''), (''description'', PStr []), (''brand'', PStr []),
      (''sku'', PStr []), (''image_urls'', PList [])]"

definition gadget_product :: "string product" where
  "gadget_product =
     [(''title'', PStr ''Gadget''), (''description'', PStr []), (''price'', PStr ''5.00''),
      (''original_price'', PStr []), (''brand'', PStr []), (''category'', PStr []),
      (''image_urls'', PList []), (''main_image_url'', PStr []), (''rating'', PNone),
      (''review_count'', PNone)]"

definition gizmo_product :: "string product" where
  "gizmo_product =
     [(''title'', PStr ''Gizmo''), (''description'', PStr []), (''price'', PStr []),
      (''original_price'', PStr []), (''brand'', PStr []), (''category'', PStr []),
      (''sku'', PStr []), (''image_urls'', PList []), (''main_image_url'', PStr []),
      (''rating'', PNone), (''review_count'', PNone)]"

text \<open>
  Example sites and job stores: a listing whose second page has a next link but no
  product, a site on which every page has a product and a next link, a one-page site; a
  store whose job keeps running, one whose job is cancelled after the first page, and one
  whose last commit fails.
\<close>

definition shop_url :: string where
  "shop_url = ''https://shop.example/cat''"

definition two_page_web :: web where
  "two_page_web =
     (\<lambda>u. if u = ''https://shop.example/cat'' then Some page_listing
          else if u = ''https://shop.example/cat/page/2/'' then Some page_empty_next
          else None)"

definition endless_web :: web where
  "endless_web = (\<lambda>u. Some page_widget_next)"

definition one_page_web :: web where
  "one_page_web = (\<lambda>u. if u = ''https://shop.example/cat'' then Some page_widget else None)"

definition ten_pages :: "string list" where
  "ten_pages =
     [''https://shop.example/cat'', ''https://shop.example/cat/page/2/'',
      ''https://shop.example/cat/page/3/'', ''https://shop.example/cat/page/4/'',
      ''https://shop.example/cat/page/5/'', ''https://shop.example/cat/page/6/'',
      ''https://shop.example/cat/page/7/'', ''https://shop.example/cat/page/8/'',
      ''https://shop.example/cat/page/9/'', ''https://shop.example/cat/page/10/'']"

definition running_store :: job_store where
  "running_store =
     \<lparr> query_get = (\<lambda>job_id n. Job ''running''),
       commit_ok = (\<lambda>site n. True),
       rollback_ok = (\<lambda>site n. True) \<rparr>"

definition cancelling_store :: job_store where
  "cancelling_store =
     \<lparr> query_get = (\<lambda>job_id n. if n = 1 then Job ''running'' else Job ''cancelled''),
       commit_ok = (\<lambda>site n. True),
       rollback_ok = (\<lambda>site n. True) \<rparr>"

definition failing_final_store :: job_store where
  "failing_final_store =
     \<lparr> query_get = (\<lambda>job_id n. Job ''running''),
       commit_ok = (\<lambda>site n. site \<noteq> Final),
       rollback_ok = (\<lambda>site n. True) \<rparr>"

section \<open>Properties of the price normalizer\<close>

lemma price_char_not_space: "price_char c \<Longrightarrow> \<not> is_space c"
  by (auto simp: price_char_def is_digit_def is_space_def)

lemma dropWhile_space_price: "\<forall>c\<in>set s. price_char c \<Longrightarrow> dropWhile is_space s = s"
  by (cases s) (auto simp: price_char_not_space)

lemma py_strip_price: "\<forall>c\<in>set s. price_char c \<Longrightarrow> py_strip s = s"
  by (simp add: py_strip_def dropWhile_space_price)

lemma price_char_iff: "price_char c \<longleftrightarrow> c \<in> set ''0123456789.,''"
  by (auto simp: price_char_def is_digit_def)

lemma clean_price_filter: "clean_price s = filter price_char s"
  by (simp add: clean_price_def py_strip_price)

text \<open>
  C7. The price normalizer removes every character that is not a digit, a period or a
  comma and trims the remainder (the trim never removes anything, so the result is exactly
  the kept characters in order); the empty string gives the empty string; normalizing
  twice is the same as normalizing once; a string of digits, periods and commas only is
  returned unchanged; and \<^verbatim>\<open>"$1,299.00 USD"\<close> gives \<^verbatim>\<open>"1,299.00"\<close>.
\<close>

theorem clean_price_normalizes:
  "clean_price s = py_strip (filter (\<lambda>c. c \<in> set ''0123456789.,'') s)
   \<and> clean_price s = filter (\<lambda>c. c \<in> set ''0123456789.,'') s
   \<and> clean_price [] = []
   \<and> clean_price (clean_price s) = clean_price s
   \<and> ((\<forall>c\<in>set s. c \<in> set ''0123456789.,'') \<longrightarrow> clean_price s = s)
   \<and> clean_price ''$1,299.00 USD'' = ''1,299.00''"
proof -
  have f: "clean_price t = filter (\<lambda>c. c \<in> set ''0123456789.,'') t" for t
    using clean_price_filter [of t] price_char_iff by (simp cong: filter_cong)
  have s: "py_strip (filter (\<lambda>c. c \<in> set ''0123456789.,'') s) = filter (\<lambda>c. c \<in> set ''0123456789.,'') s"
    by (rule py_strip_price) (simp add: price_char_iff)
  have ex: "clean_price ''$1,299.00 USD'' = ''1,299.00''"
    by (simp add: f)
  have idem: "clean_price (clean_price s) = clean_price s"
    by (simp only: f filter_filter) simp
  have fixed: "(\<forall>c\<in>set s. c \<in> set ''0123456789.,'') \<longrightarrow> clean_price s = s"
    by (simp only: f filter_id_conv) simp
  show ?thesis using f s ex idem fixed by (simp only:) simp
qed

theorem clean_price_normalizes_witness:
  "set ''12,5.0'' \<subseteq> set ''0123456789.,'' \<and> clean_price ''12,5.0'' = ''12,5.0''
   \<and> clean_price ''EUR 12,5.0 '' = ''12,5.0''"
  using clean_price_normalizes [of "''12,5.0''"] clean_price_normalizes [of "''EUR 12,5.0 ''"]
  by (simp add: py_strip_def is_space_def)

section \<open>Properties of page-URL construction\<close>

lemma str_int_3: "str_int 3 = ''3''"
  by (simp add: str_int_def str_nat.simps digit_char_def)

text \<open>
  C6. Page 1 uses the base URL verbatim. For a page \<open>n > 1\<close>, a base URL that contains
  \<^verbatim>\<open>?\<close> gets \<^verbatim>\<open>&page=n\<close> appended; any other base URL gets the path segment
  \<^verbatim>\<open>/page/n/\<close> appended after one trailing slash of the base, if there is any, has been
  dropped, so the join never doubles the slash. The two example URLs of the specification
  are computed as stated.
\<close>

theorem build_page_url_cases:
  "build_page_url base 1 = base
   \<and> (1 < n \<and> CHR ''?'' \<in> set base \<longrightarrow> build_page_url base n = base @ ''&page='' @ str_int n)
   \<and> (1 < n \<and> CHR ''?'' \<notin> set base \<longrightarrow>
        build_page_url base n =
          (if ends_with_slash base then butlast base else base) @ ''/page/'' @ str_int n @ ''/'')
   \<and> build_page_url ''https://shop.example/cat'' 3 = ''https://shop.example/cat/page/3/''
   \<and> build_page_url ''https://shop.example/cat?x=1'' 3 = ''https://shop.example/cat?x=1&page=3''"
proof -
  have b: "butlast base @ ''/'' = base" if "ends_with_slash base"
    using that append_butlast_last_id [of base] by (simp add: ends_with_slash_def)
  have a: "(if ends_with_slash base then butlast base else base) @ ''/page/'' @ t =
           (if ends_with_slash base then base @ ''page/'' @ t else base @ ''/page/'' @ t)" for t
  proof (cases "ends_with_slash base")
    case True
    have "butlast base @ ''/page/'' @ t = (butlast base @ ''/'') @ ''page/'' @ t" by simp
    with True show ?thesis by (simp only: b [OF True] if_True)
  next
    case False
    then show ?thesis by simp
  qed
  show ?thesis
    unfolding a by (simp add: build_page_url_def str_int_3) (simp add: ends_with_slash_def)
qed

theorem build_page_url_cases_witness:
  "(1::int) < 3 \<and> CHR ''?'' \<in> set ''https://shop.example/cat?x=1''
   \<and> CHR ''?'' \<notin> set ''https://shop.example/cat/''
   \<and> build_page_url ''https://shop.example/cat?x=1'' 3 = ''https://shop.example/cat?x=1&page=3''
   \<and> build_page_url ''https://shop.example/cat/'' 3 = ''https://shop.example/cat/page/3/''"
  using build_page_url_cases [of "''https://shop.example/cat?x=1''" 3]
        build_page_url_cases [of "''https://shop.example/cat/''" 3]
  by (simp add: ends_with_slash_def str_int_3)

section \<open>Evaluation on the example pages\<close>

lemmas example_defs = example_lib_def widget_json_def bare_json_def untitled_json_def tile_def untitled_tile_def
  next_link_def listing_doc_def page_both_def page_listing_def page_empty_next_def page_detail_def
  page_widget_def page_widget_next_def widget_product_def bare_product_def gadget_product_def gizmo_product_def

lemma json_ld_of_page_both: "extract_json_ld_products example_lib page_both = [widget_product]"
  by (simp add: extract_json_ld_products_def example_defs parse_json_ld_product_def dict_get_def dict_set_def
      brand_of_def json_ld_offers_def json_ld_images_def json_ld_rating_def)

lemma containers_of_page_both: "extract_container_products example_lib page_both u = [gadget_product]"
  by (simp add: extract_container_products_def example_defs product_selectors_def select_def
      extract_product_from_container_def container_defaults_def set_text_field_def
      container_title_selectors_def container_price_selectors_def original_price_selectors_def
      select_one_def container_image_def container_rating_def if_titled_def dict_set_def
      clean_price_def price_char_def is_digit_def py_strip_def is_space_def)

lemma json_ld_of_page_detail: "extract_json_ld_products example_lib page_detail = []"
  by (simp add: extract_json_ld_products_def page_detail_def)

lemma containers_of_page_detail: "extract_container_products example_lib page_detail u = []"
  by (simp add: extract_container_products_def page_detail_def product_selectors_def select_def)

lemma single_of_page_detail: "extract_single_product example_lib page_detail u = Some gizmo_product"
  by (simp add: extract_single_product_def example_defs single_defaults_def set_text_field_def
      single_title_selectors_def desc_selectors_def single_price_selectors_def img_selectors_def
      select_one_def select_def single_images_def if_titled_def dict_set_def)

lemma json_ld_of_page_listing: "extract_json_ld_products L page_listing = []"
  by (simp add: extract_json_ld_products_def page_listing_def)

lemma containers_of_page_listing: "extract_container_products example_lib page_listing u = [gadget_product]"
  using containers_of_page_both [of u] by (simp add: extract_container_products_def page_both_def page_listing_def)

lemma products_of_page_listing: "page_products example_lib page_listing u n = [gadget_product]"
  by (simp add: page_products_def page_strategies_def json_ld_of_page_listing containers_of_page_listing gadget_product_def)

lemma page_listing_has_next: "has_next_page page_listing u"
  by (simp add: has_next_page_def page_listing_def listing_doc_def next_indicators_def
      select_one_def select_def)

lemma products_of_page_empty_next: "page_products L page_empty_next u 2 = []"
  by (simp add: page_products_def page_strategies_def extract_json_ld_products_def
      extract_container_products_def page_empty_next_def product_selectors_def select_def)

lemma page_empty_next_has_next: "has_next_page page_empty_next u"
  by (simp add: has_next_page_def page_empty_next_def next_indicators_def select_one_def select_def)

lemma shop_url_page_2: "build_page_url shop_url 2 = ''https://shop.example/cat/page/2/''"
  by (simp add: build_page_url_def shop_url_def ends_with_slash_def str_int_def str_nat.simps digit_char_def)

lemma shop_url_page_1: "build_page_url shop_url 1 = ''https://shop.example/cat''"
  by (simp add: build_page_url_def shop_url_def)

lemma products_of_page_widget_next: "page_products example_lib page_widget_next u n = [bare_product]"
  by (simp add: page_products_def page_strategies_def extract_json_ld_products_def
      page_widget_next_def example_lib_def bare_json_def widget_json_def
      parse_json_ld_product_def dict_get_def brand_of_def json_ld_offers_def json_ld_images_def
      json_ld_rating_def bare_product_def)

lemma page_widget_next_has_next: "has_next_page page_widget_next u"
  by (simp add: has_next_page_def page_widget_next_def next_indicators_def select_one_def select_def)

lemma upto_1_2: "[1..2::int] = [1, 2]"
  by (simp add: upto.simps)

lemma only_page_1: "k \<in> {1..<2::int} \<Longrightarrow> k = 1"
  by auto

lemma upto_1_10: "[1..10::int] = [1, 2, 3, 4, 5, 6, 7, 8, 9, 10]"
  by (simp add: upto.simps)

lemma ten_urls:
  "map (build_page_url shop_url) [1..10] =
     [''https://shop.example/cat'', ''https://shop.example/cat/page/2/'',
      ''https://shop.example/cat/page/3/'', ''https://shop.example/cat/page/4/'',
      ''https://shop.example/cat/page/5/'', ''https://shop.example/cat/page/6/'',
      ''https://shop.example/cat/page/7/'', ''https://shop.example/cat/page/8/'',
      ''https://shop.example/cat/page/9/'', ''https://shop.example/cat/page/10/'']"
  by (simp add: upto_1_10 build_page_url_def shop_url_def ends_with_slash_def str_int_def
      str_nat.simps digit_char_def)

section \<open>Strategy priority\<close>

text \<open>
  C1. On every fetched page: if the structured-data (JSON-LD) extractor yields at least one
  product, exactly its results are the page's products and it is the only extractor that
  was called; the container extractor is called exactly when the JSON-LD extractor yielded
  nothing; and the single-product extractor is called exactly on page 1 when both others
  yielded nothing. The last conjunct gives the page's products in each of these cases.
\<close>

theorem strategy_priority:
  "(extract_json_ld_products L sp \<noteq> [] \<longrightarrow>
      page_strategies L sp page_url n = ([JsonLd], extract_json_ld_products L sp))
   \<and> (Container \<in> set (fst (page_strategies L sp page_url n)) \<longleftrightarrow>
      extract_json_ld_products L sp = [])
   \<and> (Single \<in> set (fst (page_strategies L sp page_url n)) \<longleftrightarrow>
      n = 1 \<and> extract_json_ld_products L sp = [] \<and> extract_container_products L sp page_url = [])
   \<and> page_products L sp page_url n =
      (if extract_json_ld_products L sp \<noteq> [] then extract_json_ld_products L sp
       else if extract_container_products L sp page_url \<noteq> [] then extract_container_products L sp page_url
       else if n = 1 then emit (extract_single_product L sp page_url) else [])"
  by (simp add: page_strategies_def page_products_def Let_def)

theorem strategy_priority_witness:
  "extract_json_ld_products example_lib page_both = [widget_product]
   \<and> extract_container_products example_lib page_both ''https://shop.example/cat'' = [gadget_product]
   \<and> page_strategies example_lib page_both ''https://shop.example/cat'' 1 = ([JsonLd], [widget_product])
   \<and> page_strategies example_lib page_detail ''https://shop.example/p'' 1
       = ([JsonLd, Container, Single], [gizmo_product])
   \<and> page_strategies example_lib page_detail ''https://shop.example/p'' 2 = ([JsonLd, Container], [])"
  using strategy_priority [of example_lib page_both "''https://shop.example/cat''" 1]
  by (simp add: json_ld_of_page_both containers_of_page_both)
    (simp add: page_strategies_def json_ld_of_page_detail containers_of_page_detail single_of_page_detail gizmo_product_def)

section \<open>Properties of the pagination loops\<close>

lemma scrape_page_empty:
  "W (build_page_url url n) = Some sp \<Longrightarrow> page_products L sp (build_page_url url n) n = [] \<Longrightarrow>
   scrape_page L W url n a f = Break a (f @ [build_page_url url n])"
  by (simp add: scrape_page_def)

lemma scrape_page_fetched:
  "\<exists>r. scrape_page L W url n a f = Raise FetchError (f @ [build_page_url url n])
     \<or> scrape_page L W url n a f = Break r (f @ [build_page_url url n])
     \<or> scrape_page L W url n a f = Next r (f @ [build_page_url url n])"
  by (auto simp: scrape_page_def Let_def split: option.splits)

lemma progress_page_length:
  "(case progress_page L W D url job_id n a f of
      PRaise e f' \<Rightarrow> length f' \<le> Suc (length f)
    | PReturn a' f' \<Rightarrow> f' = f
    | PBreak a' f' j \<Rightarrow> length f' = Suc (length f)
    | PNext a' f' j \<Rightarrow> length f' = Suc (length f))"
  by (simp add: progress_page_def Let_def split: option.splits)

lemma final_update_fetched: "fst (final_update D j n a f) = f"
  by (simp add: final_update_def split: option.splits)

lemma scrape_loop_bound:
  "length (fst (scrape_loop L W url n a f)) \<le> length f + nat (11 - n)"
proof (induction L W url n a f rule: scrape_loop.induct)
  case (1 L W url n a f)
  show ?case
  proof (cases "n \<le> 10")
    case False
    then show ?thesis by (simp add: scrape_loop.simps)
  next
    case True
    from scrape_page_fetched [of L W url n a f] obtain r where
      r: "scrape_page L W url n a f = Raise FetchError (f @ [build_page_url url n])
        \<or> scrape_page L W url n a f = Break r (f @ [build_page_url url n])
        \<or> scrape_page L W url n a f = Next r (f @ [build_page_url url n])" by blast
    then show ?thesis
    proof (elim disjE)
      assume "scrape_page L W url n a f = Raise FetchError (f @ [build_page_url url n])"
      with True show ?thesis by (simp add: scrape_loop.simps)
    next
      assume "scrape_page L W url n a f = Break r (f @ [build_page_url url n])"
      with True show ?thesis by (simp add: scrape_loop.simps)
    next
      assume nx: "scrape_page L W url n a f = Next r (f @ [build_page_url url n])"
      from "1.IH" [OF True nx]
      have "length (fst (scrape_loop L W url (n + 1) r (f @ [build_page_url url n])))
              \<le> length (f @ [build_page_url url n]) + nat (11 - (n + 1))" .
      with True nx show ?thesis by (simp add: scrape_loop.simps [of L W url n])
    qed
  qed
qed

lemma progress_loop_bound:
  "length (fst (progress_loop L W D url job_id n a f j)) \<le> length f + nat (11 - n)"
proof (induction L W D url job_id n a f j rule: progress_loop.induct)
  case (1 L W D url job_id n a f j)
  show ?case
  proof (cases "n \<le> 10")
    case False
    then show ?thesis by (simp add: progress_loop.simps final_update_fetched)
  next
    case True
    note len = progress_page_length [where L=L and W=W and D=D and url=url and job_id=job_id and n=n and a=a and f=f]
    show ?thesis
    proof (cases "progress_page L W D url job_id n a f")
      case (PRaise e f')
      with True len show ?thesis by (simp add: progress_loop.simps)
    next
      case (PReturn a' f')
      with True len show ?thesis by (simp add: progress_loop.simps)
    next
      case (PBreak a' f' j')
      with True len show ?thesis by (simp add: progress_loop.simps final_update_fetched)
    next
      case (PNext a' f' j')
      from "1.IH" [OF True PNext]
      have "length (fst (progress_loop L W D url job_id (n + 1) a' f' j')) \<le> length f' + nat (11 - (n + 1))" .
      with True PNext len show ?thesis by (simp add: progress_loop.simps [of L W D url job_id n])
    qed
  qed
qed

lemma scrape_loop_all_continue:
  assumes "\<forall>k. n \<le> k \<and> k \<le> 10 \<longrightarrow>
             W (build_page_url url k) = Some (pages k)
           \<and> page_products L (pages k) (build_page_url url k) k \<noteq> []
           \<and> has_next_page (pages k) (build_page_url url k)"
  shows "scrape_loop L W url n a f =
           (f @ map (build_page_url url) [n..10],
            Inr (a @ concat (map (\<lambda>k. page_products L (pages k) (build_page_url url k) k) [n..10])))"
  using assms
proof (induction L W url n a f rule: scrape_loop.induct)
  case (1 L W url n a f)
  show ?case
  proof (cases "n \<le> 10")
    case False
    then show ?thesis by (simp add: scrape_loop.simps)
  next
    case True
    let ?pp = "page_products L (pages n) (build_page_url url n) n"
    from "1.prems" True have here: "W (build_page_url url n) = Some (pages n)" "?pp \<noteq> []"
      "has_next_page (pages n) (build_page_url url n)" by auto
    then have nx: "scrape_page L W url n a f = Next (a @ ?pp) (f @ [build_page_url url n])"
      by (simp add: scrape_page_def Let_def)
    from "1.prems" have rest: "\<forall>k. n + 1 \<le> k \<and> k \<le> 10 \<longrightarrow>
             W (build_page_url url k) = Some (pages k)
           \<and> page_products L (pages k) (build_page_url url k) k \<noteq> []
           \<and> has_next_page (pages k) (build_page_url url k)" by auto
    note ih = "1.IH" [OF True nx rest]
    have up: "[n..10] = n # [n + 1..10]" using True by (rule upto_rec1)
    show ?thesis
      by (simp add: scrape_loop.simps [of L W url n] True nx ih up)
  qed
qed

lemma scrape_loop_past_cap: "10 < n \<Longrightarrow> scrape_loop L W url n a f = (f, Inr a)"
  by (simp add: scrape_loop.simps)

lemma progress_loop_past_cap:
  "10 < n \<Longrightarrow> progress_loop L W D url job_id n a f j = final_update D j n a f"
  by (simp add: progress_loop.simps)

lemma progress_page_continue:
  assumes "W (build_page_url url n) = Some sp"
      and "page_products L sp (build_page_url url n) n \<noteq> []"
      and "has_next_page sp (build_page_url url n)"
      and "query_get D job_id n \<noteq> QueryRaises" and "\<not> stop_requested (query_get D job_id n)"
      and "job_present (query_get D job_id n) \<longrightarrow>
             guarded_commit D PageStart n = None \<and> guarded_commit D PageFound n = None"
  shows "progress_page L W D url job_id n a f =
           PNext (a @ page_products L sp (build_page_url url n) n) (f @ [build_page_url url n])
             (query_get D job_id n)"
  using assms by (simp add: progress_page_def Let_def)

lemma progress_loop_all_continue:
  assumes "\<forall>k. n \<le> k \<and> k \<le> 10 \<longrightarrow>
             W (build_page_url url k) = Some (pages k)
           \<and> page_products L (pages k) (build_page_url url k) k \<noteq> []
           \<and> has_next_page (pages k) (build_page_url url k)
           \<and> query_get D job_id k \<noteq> QueryRaises \<and> \<not> stop_requested (query_get D job_id k)
           \<and> (job_present (query_get D job_id k) \<longrightarrow>
                 guarded_commit D PageStart k = None \<and> guarded_commit D PageFound k = None)"
      and "n \<le> 10"
  shows "progress_loop L W D url job_id n a f j =
           final_update D (query_get D job_id 10) 11
             (a @ concat (map (\<lambda>k. page_products L (pages k) (build_page_url url k) k) [n..10]))
             (f @ map (build_page_url url) [n..10])"
  using assms
proof (induction L W D url job_id n a f j rule: progress_loop.induct)
  case (1 L W D url job_id n a f j)
  let ?pp = "page_products L (pages n) (build_page_url url n) n"
  have le: "n \<le> 10" by fact
  from "1.prems" have here: "W (build_page_url url n) = Some (pages n)" "?pp \<noteq> []"
      "has_next_page (pages n) (build_page_url url n)"
      "query_get D job_id n \<noteq> QueryRaises" "\<not> stop_requested (query_get D job_id n)"
      "job_present (query_get D job_id n) \<longrightarrow>
                 guarded_commit D PageStart n = None \<and> guarded_commit D PageFound n = None"
    by auto
  note nx = progress_page_continue
    [where W=W and url=url and n=n and sp="pages n" and L=L and D=D and job_id=job_id and a=a and f=f,
     OF here]
  have up: "[n..10] = n # [n + 1..10]" using le by (rule upto_rec1)
  show ?case
  proof (cases "n = 10")
    case True
    have "[n + 1..10] = []" using True by simp
    with True show ?thesis
      using nx by (simp add: progress_loop.simps [of L W D url job_id 10] progress_loop_past_cap up)
  next
    case False
    with le have le': "n + 1 \<le> 10" by simp
    from "1.prems" have rest: "\<forall>k. n + 1 \<le> k \<and> k \<le> 10 \<longrightarrow>
             W (build_page_url url k) = Some (pages k)
           \<and> page_products L (pages k) (build_page_url url k) k \<noteq> []
           \<and> has_next_page (pages k) (build_page_url url k)
           \<and> query_get D job_id k \<noteq> QueryRaises \<and> \<not> stop_requested (query_get D job_id k)
           \<and> (job_present (query_get D job_id k) \<longrightarrow>
                 guarded_commit D PageStart k = None \<and> guarded_commit D PageFound k = None)" by auto
    note ih = "1.IH" [OF le nx rest le']
    show ?thesis
      by (simp add: progress_loop.simps [of L W D url job_id n] le nx ih up)
  qed
qed

lemma scrape_loop_prefix:
  assumes "\<forall>k. n \<le> k \<and> k < m \<longrightarrow>
             W (build_page_url url k) = Some (pages k)
           \<and> page_products L (pages k) (build_page_url url k) k \<noteq> []
           \<and> has_next_page (pages k) (build_page_url url k)"
      and "n \<le> m" and "m \<le> 11"
  shows "scrape_loop L W url n a f =
           scrape_loop L W url m
             (a @ concat (map (\<lambda>k. page_products L (pages k) (build_page_url url k) k) [n..m - 1]))
             (f @ map (build_page_url url) [n..m - 1])"
  using assms
proof (induction L W url n a f rule: scrape_loop.induct)
  case (1 L W url n a f)
  show ?case
  proof (cases "n = m")
    case True
    then show ?thesis by simp
  next
    case False
    with "1.prems" have lt: "n < m" and le: "n \<le> 10" and le': "n + 1 \<le> m" by simp_all
    let ?pp = "page_products L (pages n) (build_page_url url n) n"
    from "1.prems"(1) lt have here: "W (build_page_url url n) = Some (pages n)" "?pp \<noteq> []"
      "has_next_page (pages n) (build_page_url url n)" by auto
    then have nx: "scrape_page L W url n a f = Next (a @ ?pp) (f @ [build_page_url url n])"
      by (simp add: scrape_page_def Let_def)
    from "1.prems"(1) have rest: "\<forall>k. n + 1 \<le> k \<and> k < m \<longrightarrow>
             W (build_page_url url k) = Some (pages k)
           \<and> page_products L (pages k) (build_page_url url k) k \<noteq> []
           \<and> has_next_page (pages k) (build_page_url url k)" by auto
    note ih = "1.IH" [OF le nx rest le' "1.prems"(3)]
    have up: "[n..m - 1] = n # [n + 1..m - 1]" using lt by (intro upto_rec1) simp
    show ?thesis
      by (simp add: scrape_loop.simps [of L W url n] le nx ih up)
  qed
qed

lemma progress_loop_prefix:
  assumes "\<forall>k. n \<le> k \<and> k < m \<longrightarrow>
             W (build_page_url url k) = Some (pages k)
           \<and> page_products L (pages k) (build_page_url url k) k \<noteq> []
           \<and> has_next_page (pages k) (build_page_url url k)
           \<and> query_get D job_id k \<noteq> QueryRaises \<and> \<not> stop_requested (query_get D job_id k)
           \<and> (job_present (query_get D job_id k) \<longrightarrow>
                 guarded_commit D PageStart k = None \<and> guarded_commit D PageFound k = None)"
      and "n \<le> m" and "m \<le> 11"
  shows "progress_loop L W D url job_id n a f j =
           progress_loop L W D url job_id m
             (a @ concat (map (\<lambda>k. page_products L (pages k) (build_page_url url k) k) [n..m - 1]))
             (f @ map (build_page_url url) [n..m - 1])
             (if n < m then query_get D job_id (m - 1) else j)"
  using assms
proof (induction L W D url job_id n a f j rule: progress_loop.induct)
  case (1 L W D url job_id n a f j)
  show ?case
  proof (cases "n = m")
    case True
    then show ?thesis by simp
  next
    case False
    with "1.prems" have lt: "n < m" and le: "n \<le> 10" and le': "n + 1 \<le> m" by simp_all
    let ?pp = "page_products L (pages n) (build_page_url url n) n"
    from "1.prems"(1) lt have here: "W (build_page_url url n) = Some (pages n)" "?pp \<noteq> []"
      "has_next_page (pages n) (build_page_url url n)"
      "query_get D job_id n \<noteq> QueryRaises" "\<not> stop_requested (query_get D job_id n)"
      "job_present (query_get D job_id n) \<longrightarrow>
                 guarded_commit D PageStart n = None \<and> guarded_commit D PageFound n = None"
      by auto
    note nx = progress_page_continue
      [where W=W and url=url and n=n and sp="pages n" and L=L and D=D and job_id=job_id and a=a and f=f,
       OF here]
    from "1.prems"(1) have rest: "\<forall>k. n + 1 \<le> k \<and> k < m \<longrightarrow>
             W (build_page_url url k) = Some (pages k)
           \<and> page_products L (pages k) (build_page_url url k) k \<noteq> []
           \<and> has_next_page (pages k) (build_page_url url k)
           \<and> query_get D job_id k \<noteq> QueryRaises \<and> \<not> stop_requested (query_get D job_id k)
           \<and> (job_present (query_get D job_id k) \<longrightarrow>
                 guarded_commit D PageStart k = None \<and> guarded_commit D PageFound k = None)" by auto
    note ih = "1.IH" [OF le nx rest le' "1.prems"(3)]
    have up: "[n..m - 1] = n # [n + 1..m - 1]" using lt by (intro upto_rec1) simp
    have j: "(if n + 1 < m then query_get D job_id (m - 1) else query_get D job_id n)
               = query_get D job_id (m - 1)"
    proof (cases "n + 1 < m")
      case True
      then show ?thesis by simp
    next
      case False
      with lt have "m - 1 = n" by simp
      with False show ?thesis by simp
    qed
    show ?thesis
      by (simp only: progress_loop.simps [of L W D url job_id n] le if_True nx pctl.case ih j up lt)
         simp
  qed
qed

lemma scrape_loop_empty_page:
  "n \<le> 10 \<Longrightarrow> W (build_page_url url n) = Some sp \<Longrightarrow> page_products L sp (build_page_url url n) n = [] \<Longrightarrow>
     scrape_loop L W url n a f = (f @ [build_page_url url n], Inr a)"
  by (simp add: scrape_loop.simps scrape_page_def Let_def)

lemma progress_loop_empty_page:
  "n \<le> 10 \<Longrightarrow> W (build_page_url url n) = Some sp \<Longrightarrow> page_products L sp (build_page_url url n) n = [] \<Longrightarrow>
   query_get D job_id n \<noteq> QueryRaises \<Longrightarrow> \<not> stop_requested (query_get D job_id n) \<Longrightarrow>
   (job_present (query_get D job_id n) \<longrightarrow> guarded_commit D PageStart n = None) \<Longrightarrow>
     progress_loop L W D url job_id n a f j =
       (f @ [build_page_url url n],
        if job_present (query_get D job_id n) \<and> \<not> commit_ok D Final n then Inl CommitError else Inr a)"
  by (simp add: progress_loop.simps progress_page_def final_update_def plain_commit_def Let_def)

lemma progress_loop_stop:
  "n \<le> 10 \<Longrightarrow> query_get D job_id n = Job status \<Longrightarrow> status = ''cancelled'' \<or> status = ''paused'' \<Longrightarrow>
   progress_loop L W D url job_id n a f j = (f, Inr a)"
  by (auto simp add: progress_loop.simps progress_page_def stop_requested_def)

text \<open>
  C3. When page \<open>n\<close> (within the cap) yields no product from any strategy, the run ends:
  the request for page \<open>n\<close> is the last one, whatever next-page signals the page carries
  (there is no hypothesis about them), and the products accumulated before this page are
  returned unchanged. The first conjunct is the loop of \<^verbatim>\<open>scrape_products\<close> at any
  state. The second is the loop of \<^verbatim>\<open>scrape_products_with_progress\<close>, for an iteration
  that reaches the fetch (the job lookup succeeds and does not report a stop, and the first
  progress commit does not leave the loop) and a final commit that succeeds. The third is a
  whole run of \<^verbatim>\<open>scrape_products\<close>: if the pages before \<open>N\<close> each gave products and a
  next-page signal and page \<open>N\<close> gives nothing, exactly the pages 1 to \<open>N\<close> are requested
  and the products of the pages 1 to \<open>N - 1\<close> are returned in order.
\<close>

theorem empty_page_stops:
  "(n \<le> 10 \<and> W (build_page_url url n) = Some sp
      \<and> page_products L sp (build_page_url url n) n = [] \<longrightarrow>
      scrape_loop L W url n all_products fetched
        = (fetched @ [build_page_url url n], Inr all_products))
   \<and> (n \<le> 10 \<and> W (build_page_url url n) = Some sp
      \<and> page_products L sp (build_page_url url n) n = []
      \<and> query_get D job_id n \<noteq> QueryRaises \<and> \<not> stop_requested (query_get D job_id n)
      \<and> (job_present (query_get D job_id n) \<longrightarrow>
            guarded_commit D PageStart n = None \<and> commit_ok D Final n) \<longrightarrow>
      progress_loop L W D url job_id n all_products fetched job
        = (fetched @ [build_page_url url n], Inr all_products))
   \<and> (1 \<le> N \<and> N \<le> 10
      \<and> (\<forall>k\<in>{1..<N}. W (build_page_url url k) = Some (pages k)
             \<and> page_products L (pages k) (build_page_url url k) k \<noteq> []
             \<and> has_next_page (pages k) (build_page_url url k))
      \<and> W (build_page_url url N) = Some (pages N)
      \<and> page_products L (pages N) (build_page_url url N) N = [] \<longrightarrow>
      scrape_products L W url
        = (map (build_page_url url) [1..N],
           Inr (concat (map (\<lambda>k. page_products L (pages k) (build_page_url url k) k) [1..N - 1]))))"
proof -
  have p: "progress_loop L W D url job_id n all_products fetched job
        = (fetched @ [build_page_url url n], Inr all_products)"
    if "n \<le> 10" "W (build_page_url url n) = Some sp"
       "page_products L sp (build_page_url url n) n = []"
       "query_get D job_id n \<noteq> QueryRaises" "\<not> stop_requested (query_get D job_id n)"
       "job_present (query_get D job_id n) \<longrightarrow> guarded_commit D PageStart n = None \<and> commit_ok D Final n"
    using that progress_loop_empty_page [where n=n and W=W and url=url and sp=sp and L=L and D=D
        and job_id=job_id and a=all_products and f=fetched and j=job]
    by auto
  have e: "scrape_products L W url
        = (map (build_page_url url) [1..N],
           Inr (concat (map (\<lambda>k. page_products L (pages k) (build_page_url url k) k) [1..N - 1])))"
    if N: "1 \<le> N" "N \<le> 10"
      and pre: "\<forall>k\<in>{1..<N}. W (build_page_url url k) = Some (pages k)
             \<and> page_products L (pages k) (build_page_url url k) k \<noteq> []
             \<and> has_next_page (pages k) (build_page_url url k)"
      and last: "W (build_page_url url N) = Some (pages N)"
         "page_products L (pages N) (build_page_url url N) N = []"
  proof -
    from pre have pre': "\<forall>k. 1 \<le> k \<and> k < N \<longrightarrow> W (build_page_url url k) = Some (pages k)
             \<and> page_products L (pages k) (build_page_url url k) k \<noteq> []
             \<and> has_next_page (pages k) (build_page_url url k)" by simp
    from N have m: "N \<le> 11" by simp
    have up: "[1..N] = [1..N - 1] @ [N]" using N(1) by (rule upto_rec2)
    show ?thesis
      unfolding scrape_products_def
      by (simp only: scrape_loop_prefix [where n=1 and m=N and W=W and url=url and pages=pages and L=L, OF pre' N(1) m] scrape_loop_empty_page [where n=N and W=W and url=url and sp="pages N" and L=L, OF N(2) last] up)
         simp
  qed
  from p e show ?thesis
    using scrape_loop_empty_page [of n W url sp L all_products fetched] by blast
qed

theorem empty_page_stops_witness:
  "has_next_page page_empty_next (build_page_url shop_url 2)
   \<and> page_products example_lib page_empty_next (build_page_url shop_url 2) 2 = []
   \<and> scrape_loop example_lib two_page_web shop_url 2 [gadget_product] [''https://shop.example/cat'']
       = ([''https://shop.example/cat'', ''https://shop.example/cat/page/2/''], Inr [gadget_product])
   \<and> progress_loop example_lib two_page_web running_store shop_url 7 2 [gadget_product]
         [''https://shop.example/cat''] (Job ''running'')
       = ([''https://shop.example/cat'', ''https://shop.example/cat/page/2/''], Inr [gadget_product])
   \<and> scrape_products example_lib two_page_web shop_url
       = ([''https://shop.example/cat'', ''https://shop.example/cat/page/2/''], Inr [gadget_product])"
proof -
  define pages where "pages = (\<lambda>k::int. if k = 1 then page_listing else page_empty_next)"
  have w1: "two_page_web (build_page_url shop_url 1) = Some page_listing"
    and w2: "two_page_web (build_page_url shop_url 2) = Some page_empty_next"
    by (simp_all add: shop_url_page_1 shop_url_page_2 two_page_web_def)
  have st: "query_get running_store 7 n = Job ''running''" "commit_ok running_store s n"
    "guarded_commit running_store s n = None" for s n
    by (simp_all add: running_store_def guarded_commit_def)
  have before: "\<forall>k\<in>{1..<2}. two_page_web (build_page_url shop_url k) = Some (pages k)
             \<and> page_products example_lib (pages k) (build_page_url shop_url k) k \<noteq> []
             \<and> has_next_page (pages k) (build_page_url shop_url k)"
    by (auto dest!: only_page_1 simp: pages_def w1 products_of_page_listing page_listing_has_next)
  have pg2: "pages 2 = page_empty_next" by (simp add: pages_def)
  have pg1: "pages 1 = page_listing" by (simp add: pages_def)
  show ?thesis
    using empty_page_stops [where n=2 and N=2 and W=two_page_web and url=shop_url and L=example_lib
        and sp=page_empty_next and pages=pages and D=running_store and job_id=7
        and all_products="[gadget_product]" and fetched="[''https://shop.example/cat'']"
        and job="Job ''running''"]
      before
    by (simp add: page_empty_next_has_next products_of_page_empty_next w2 st stop_requested_def job_present_def pg1 pg2
        upto_1_2 products_of_page_listing)
       (simp add: shop_url_page_1 shop_url_page_2)
qed

text \<open>
  The page cap. No run requests more than 10 pages, in either entry point. When every
  page up to the cap is fetched, yields products and signals a next page,
  \<^verbatim>\<open>scrape_products\<close> requests exactly the pages 1 to 10 and returns the products of
  all ten pages in order; \<^verbatim>\<open>scrape_products_with_progress\<close> does the same when, in
  addition, no job lookup raises or reports a stop, no guarded progress commit leaves the
  loop and the final commit succeeds. Both loops are total functions, so every run ends.
\<close>

theorem page_cap:
  "length (fst (scrape_products L W url)) \<le> 10
   \<and> length (fst (scrape_products_with_progress L W D url job_id)) \<le> 10
   \<and> ((\<forall>k\<in>{1..10}. W (build_page_url url k) = Some (pages k)
           \<and> page_products L (pages k) (build_page_url url k) k \<noteq> []
           \<and> has_next_page (pages k) (build_page_url url k)) \<longrightarrow>
        scrape_products L W url =
          (map (build_page_url url) [1..10],
           Inr (concat (map (\<lambda>k. page_products L (pages k) (build_page_url url k) k) [1..10]))))
   \<and> ((\<forall>k\<in>{1..10}. W (build_page_url url k) = Some (pages k)
           \<and> page_products L (pages k) (build_page_url url k) k \<noteq> []
           \<and> has_next_page (pages k) (build_page_url url k)
           \<and> query_get D job_id k \<noteq> QueryRaises \<and> \<not> stop_requested (query_get D job_id k)
           \<and> (job_present (query_get D job_id k) \<longrightarrow>
                 guarded_commit D PageStart k = None \<and> guarded_commit D PageFound k = None))
        \<and> (job_present (query_get D job_id 10) \<longrightarrow> commit_ok D Final 11) \<longrightarrow>
        scrape_products_with_progress L W D url job_id =
          (map (build_page_url url) [1..10],
           Inr (concat (map (\<lambda>k. page_products L (pages k) (build_page_url url k) k) [1..10]))))"
proof -
  have b1: "length (fst (scrape_products L W url)) \<le> 10"
    using scrape_loop_bound [of L W url 1 "[]" "[]"] by (simp add: scrape_products_def)
  have b2: "length (fst (scrape_products_with_progress L W D url job_id)) \<le> 10"
    using progress_loop_bound [of L W D url job_id 1 "[]" "[]" NoJob]
    by (simp add: scrape_products_with_progress_def)
  have c1: "scrape_products L W url =
          (map (build_page_url url) [1..10],
           Inr (concat (map (\<lambda>k. page_products L (pages k) (build_page_url url k) k) [1..10])))"
    if "\<forall>k\<in>{1..10}. W (build_page_url url k) = Some (pages k)
           \<and> page_products L (pages k) (build_page_url url k) k \<noteq> []
           \<and> has_next_page (pages k) (build_page_url url k)"
    unfolding scrape_products_def
    using scrape_loop_all_continue [of 1 W url pages L "[]" "[]"] that by simp
  have c2: "scrape_products_with_progress L W D url job_id =
          (map (build_page_url url) [1..10],
           Inr (concat (map (\<lambda>k. page_products L (pages k) (build_page_url url k) k) [1..10])))"
    if h: "\<forall>k\<in>{1..10}. W (build_page_url url k) = Some (pages k)
           \<and> page_products L (pages k) (build_page_url url k) k \<noteq> []
           \<and> has_next_page (pages k) (build_page_url url k)
           \<and> query_get D job_id k \<noteq> QueryRaises \<and> \<not> stop_requested (query_get D job_id k)
           \<and> (job_present (query_get D job_id k) \<longrightarrow>
                 guarded_commit D PageStart k = None \<and> guarded_commit D PageFound k = None)"
      and fin: "job_present (query_get D job_id 10) \<longrightarrow> commit_ok D Final 11"
  proof -
    from h have h': "\<forall>k. 1 \<le> k \<and> k \<le> 10 \<longrightarrow>
             W (build_page_url url k) = Some (pages k)
           \<and> page_products L (pages k) (build_page_url url k) k \<noteq> []
           \<and> has_next_page (pages k) (build_page_url url k)
           \<and> query_get D job_id k \<noteq> QueryRaises \<and> \<not> stop_requested (query_get D job_id k)
           \<and> (job_present (query_get D job_id k) \<longrightarrow>
                 guarded_commit D PageStart k = None \<and> guarded_commit D PageFound k = None)"
      by simp
    have "final_update D (query_get D job_id 10) 11 a f = (f, Inr a)" for a :: "'a product list" and f
      using fin by (simp add: final_update_def plain_commit_def)
    then show ?thesis
      unfolding scrape_products_with_progress_def
      using progress_loop_all_continue [where n=1 and W=W and url=url and pages=pages and L=L and D=D
          and job_id=job_id and a="[]" and f="[]" and j=NoJob, OF h']
      by simp
  qed
  from b1 b2 c1 c2 show ?thesis by blast
qed

theorem page_cap_witness:
  "scrape_products example_lib endless_web shop_url =
     ([''https://shop.example/cat'', ''https://shop.example/cat/page/2/'',
       ''https://shop.example/cat/page/3/'', ''https://shop.example/cat/page/4/'',
       ''https://shop.example/cat/page/5/'', ''https://shop.example/cat/page/6/'',
       ''https://shop.example/cat/page/7/'', ''https://shop.example/cat/page/8/'',
       ''https://shop.example/cat/page/9/'', ''https://shop.example/cat/page/10/''],
      Inr (replicate 10 bare_product))
   \<and> scrape_products_with_progress example_lib endless_web running_store shop_url 7 =
        scrape_products example_lib endless_web shop_url"
proof -
  have st: "query_get running_store 7 n = Job ''running''" "commit_ok running_store s n"
    "guarded_commit running_store s n = None" for s n
    by (simp_all add: running_store_def guarded_commit_def)
  have rep: "map (\<lambda>k. bare_product) [1..10::int] = replicate 10 bare_product"
    by (simp add: upto_1_10 eval_nat_numeral)
  show ?thesis
    using page_cap [of example_lib endless_web shop_url running_store 7 "\<lambda>k. page_widget_next"]
    by (simp add: products_of_page_widget_next page_widget_next_has_next st stop_requested_def endless_web_def ten_urls rep
        del: upto_rec_numeral)
qed

text \<open>
  C4. The claim is that a run never fetches more than 10 pages and that, when the cap is
  reached, it ends and returns all results gathered so far. The bound holds for both
  entry points on every input, and \<^verbatim>\<open>scrape_products\<close> returns the products of all
  ten pages (\<open>page_cap\<close> above). \<^verbatim>\<open>scrape_products_with_progress\<close> does not always
  return them: after the loop it commits the final update outside any handler, so on a
  site where every page has a product and a next link, with a job whose final commit
  fails, the run requests the ten pages and then raises; the ten products are lost. With
  a store that works, and without progress tracking, the same site gives the ten products.
\<close>

lemma store_failing_final:
  "query_get failing_final_store j n = Job ''running''"
  "guarded_commit failing_final_store PageStart n = None"
  "guarded_commit failing_final_store PageFound n = None"
  "\<not> commit_ok failing_final_store Final n"
  by (simp_all add: failing_final_store_def guarded_commit_def)

theorem cap_reached_final_commit_fails:
  "scrape_products example_lib endless_web shop_url
     = (ten_pages, Inr (replicate 10 bare_product))
   \<and> scrape_products_with_progress example_lib endless_web running_store shop_url 7
     = (ten_pages, Inr (replicate 10 bare_product))
   \<and> scrape_products_with_progress example_lib endless_web failing_final_store shop_url 7
     = (ten_pages, Inl CommitError)
   \<and> length ten_pages = 10"
proof -
  have pages: "\<forall>k. 1 \<le> k \<and> k \<le> 10 \<longrightarrow>
             endless_web (build_page_url shop_url k) = Some page_widget_next
           \<and> page_products example_lib page_widget_next (build_page_url shop_url k) k \<noteq> []
           \<and> has_next_page page_widget_next (build_page_url shop_url k)
           \<and> query_get D 7 k \<noteq> QueryRaises \<and> \<not> stop_requested (query_get D 7 k)
           \<and> (job_present (query_get D 7 k) \<longrightarrow>
                 guarded_commit D PageStart k = None \<and> guarded_commit D PageFound k = None)"
    if "\<And>n. query_get D 7 n = Job ''running''" "\<And>s n. rollback_ok D s n" for D
    using that
    by (simp add: endless_web_def products_of_page_widget_next page_widget_next_has_next
        stop_requested_def guarded_commit_def)
  have rep: "concat (map (\<lambda>k. page_products example_lib page_widget_next (build_page_url shop_url k) k)
               [1..10]) = replicate 10 bare_product"
    by (simp add: products_of_page_widget_next upto_1_10 eval_nat_numeral)
  have loop: "scrape_products_with_progress example_lib endless_web D shop_url 7
      = final_update D (Job ''running'') 11 (replicate 10 bare_product)
          (map (build_page_url shop_url) [1..10])"
    if "\<And>n. query_get D 7 n = Job ''running''" "\<And>s n. rollback_ok D s n" for D
    unfolding scrape_products_with_progress_def
    using progress_loop_all_continue [where n=1 and W=endless_web and url=shop_url
        and pages="\<lambda>k. page_widget_next" and L=example_lib and D=D and job_id=7 and a="[]"
        and f="[]" and j=NoJob, OF pages [OF that]]
    by (simp only: rep that) simp
  have a: "scrape_products example_lib endless_web shop_url
     = (map (build_page_url shop_url) [1..10], Inr (replicate 10 bare_product))"
  proof -
    have "\<forall>k. 1 \<le> k \<and> k \<le> 10 \<longrightarrow>
             endless_web (build_page_url shop_url k) = Some page_widget_next
           \<and> page_products example_lib page_widget_next (build_page_url shop_url k) k \<noteq> []
           \<and> has_next_page page_widget_next (build_page_url shop_url k)"
      by (simp add: endless_web_def products_of_page_widget_next page_widget_next_has_next)
    from scrape_loop_all_continue [where n=1 and W=endless_web and url=shop_url
        and pages="\<lambda>k. page_widget_next" and L=example_lib and a="[]" and f="[]", OF this]
    show ?thesis
      unfolding scrape_products_def by (simp only: rep) simp
  qed
  have b: "scrape_products_with_progress example_lib endless_web running_store shop_url 7
     = (map (build_page_url shop_url) [1..10], Inr (replicate 10 bare_product))"
    by (subst loop) (simp_all add: running_store_def final_update_def plain_commit_def job_present_def)
  have c: "scrape_products_with_progress example_lib endless_web failing_final_store shop_url 7
     = (map (build_page_url shop_url) [1..10], Inl CommitError)"
    by (subst loop)
       (simp_all add: failing_final_store_def final_update_def plain_commit_def job_present_def)
  from a b c show ?thesis by (simp add: ten_urls ten_pages_def)
qed

text \<open>
  C5. In \<^verbatim>\<open>scrape_products_with_progress\<close>, when the job lookup at the start of the
  iteration for page \<open>n\<close> finds the job with status \<^verbatim>\<open>cancelled\<close> or \<^verbatim>\<open>paused\<close>,
  the run returns at once exactly the products accumulated so far, and the list of
  requested URLs is unchanged: no further page is fetched (first conjunct, for the loop at
  any state). For a whole run (second conjunct): if the pages before \<open>N\<close> were scraped and
  the lookup before page \<open>N\<close> reports the stop, exactly the pages 1 to \<open>N - 1\<close> have been
  requested and exactly their products are returned.
\<close>

theorem cancel_returns_accumulated:
  "(n \<le> 10 \<and> query_get D job_id n = Job status
      \<and> (status = ''cancelled'' \<or> status = ''paused'') \<longrightarrow>
      progress_loop L W D url job_id n all_products fetched job = (fetched, Inr all_products))
   \<and> (1 \<le> N \<and> N \<le> 10
      \<and> (\<forall>k\<in>{1..<N}. W (build_page_url url k) = Some (pages k)
             \<and> page_products L (pages k) (build_page_url url k) k \<noteq> []
             \<and> has_next_page (pages k) (build_page_url url k)
             \<and> query_get D job_id k \<noteq> QueryRaises \<and> \<not> stop_requested (query_get D job_id k)
             \<and> (job_present (query_get D job_id k) \<longrightarrow>
                   guarded_commit D PageStart k = None \<and> guarded_commit D PageFound k = None))
      \<and> query_get D job_id N = Job status \<and> (status = ''cancelled'' \<or> status = ''paused'') \<longrightarrow>
      scrape_products_with_progress L W D url job_id
        = (map (build_page_url url) [1..N - 1],
           Inr (concat (map (\<lambda>k. page_products L (pages k) (build_page_url url k) k) [1..N - 1]))))"
proof -
  have e: "scrape_products_with_progress L W D url job_id
        = (map (build_page_url url) [1..N - 1],
           Inr (concat (map (\<lambda>k. page_products L (pages k) (build_page_url url k) k) [1..N - 1])))"
    if N: "1 \<le> N" "N \<le> 10"
      and pre: "\<forall>k\<in>{1..<N}. W (build_page_url url k) = Some (pages k)
             \<and> page_products L (pages k) (build_page_url url k) k \<noteq> []
             \<and> has_next_page (pages k) (build_page_url url k)
             \<and> query_get D job_id k \<noteq> QueryRaises \<and> \<not> stop_requested (query_get D job_id k)
             \<and> (job_present (query_get D job_id k) \<longrightarrow>
                   guarded_commit D PageStart k = None \<and> guarded_commit D PageFound k = None)"
      and stop: "query_get D job_id N = Job status" "status = ''cancelled'' \<or> status = ''paused''"
  proof -
    from pre have pre': "\<forall>k. 1 \<le> k \<and> k < N \<longrightarrow> W (build_page_url url k) = Some (pages k)
             \<and> page_products L (pages k) (build_page_url url k) k \<noteq> []
             \<and> has_next_page (pages k) (build_page_url url k)
             \<and> query_get D job_id k \<noteq> QueryRaises \<and> \<not> stop_requested (query_get D job_id k)
             \<and> (job_present (query_get D job_id k) \<longrightarrow>
                   guarded_commit D PageStart k = None \<and> guarded_commit D PageFound k = None)" by simp
    from N have m: "N \<le> 11" by simp
    show ?thesis
      unfolding scrape_products_with_progress_def
      by (simp only: progress_loop_prefix [where n=1 and m=N and W=W and url=url and pages=pages and L=L and D=D and job_id=job_id, OF pre' N(1) m] progress_loop_stop [where n=N and D=D and job_id=job_id and status=status, OF N(2) stop]) simp
  qed
  from e show ?thesis using progress_loop_stop [of n D job_id status L W url all_products fetched job]
    by blast
qed

theorem cancel_returns_accumulated_witness:
  "query_get cancelling_store 7 2 = Job ''cancelled''
   \<and> progress_loop example_lib two_page_web cancelling_store shop_url 7 2 [gadget_product]
         [''https://shop.example/cat''] (Job ''running'')
       = ([''https://shop.example/cat''], Inr [gadget_product])
   \<and> scrape_products_with_progress example_lib two_page_web cancelling_store shop_url 7
       = ([''https://shop.example/cat''], Inr [gadget_product])"
proof -
  have w1: "two_page_web (build_page_url shop_url 1) = Some page_listing"
    by (simp add: shop_url_page_1 two_page_web_def)
  have st: "query_get cancelling_store 7 1 = Job ''running''"
    "query_get cancelling_store 7 2 = Job ''cancelled''"
    "guarded_commit cancelling_store s n = None" for s n
    by (simp_all add: cancelling_store_def guarded_commit_def)
  have before: "\<forall>k\<in>{1..<2}. two_page_web (build_page_url shop_url k) = Some page_listing
             \<and> page_products example_lib page_listing (build_page_url shop_url k) k \<noteq> []
             \<and> has_next_page page_listing (build_page_url shop_url k)
             \<and> query_get cancelling_store 7 k \<noteq> QueryRaises
             \<and> \<not> stop_requested (query_get cancelling_store 7 k)
             \<and> (job_present (query_get cancelling_store 7 k) \<longrightarrow>
                   guarded_commit cancelling_store PageStart k = None
                 \<and> guarded_commit cancelling_store PageFound k = None)"
    by (auto dest!: only_page_1 simp: w1 products_of_page_listing page_listing_has_next st stop_requested_def)
  show ?thesis
    using cancel_returns_accumulated [where n=2 and N=2 and W=two_page_web and url=shop_url
        and L=example_lib and pages="\<lambda>k. page_listing" and D=cancelling_store and job_id=7
        and status="''cancelled''" and all_products="[gadget_product]"
        and fetched="[''https://shop.example/cat'']" and job="Job ''running''"]
      before
    by (simp add: st products_of_page_listing) (simp add: shop_url_page_1)
qed

section \<open>The title of emitted records\<close>

text \<open>
  The container extractor and the single-product extractor return a record only when a
  title selector matched an element with non-empty text, and that text is the title.
\<close>

lemmas json_ld_defs = extract_json_ld_products_def parse_json_ld_product_def dict_get_def dict_set_def
  brand_of_def json_ld_offers_def json_ld_images_def json_ld_rating_def

lemma map_of_dict_set: "map_of (dict_set k v d) k' = (if k' = k then Some v else map_of d k')"
  by (simp add: dict_set_def update_conv')

lemma keys_dict_set: "keys (dict_set k v d) = (if k \<in> set (keys d) then keys d else keys d @ [k])"
  by (simp add: dict_set_def keys_def update_keys)

lemma if_titled_Some:
  "if_titled L product = Some p \<Longrightarrow> p = product \<and> (\<exists>t. map_of p ''title'' = Some t \<and> truthy L t)"
  by (auto simp: if_titled_def split: option.splits if_splits)

lemma container_image_title:
  "container_image L c u product = Some p \<Longrightarrow> map_of p ''title'' = map_of product ''title''"
  by (auto simp: container_image_def map_of_dict_set split: option.splits if_splits)

lemma container_rating_title:
  "map_of (container_rating L c product) ''title'' = map_of product ''title''"
  by (simp add: container_rating_def map_of_dict_set split: option.splits)

lemma container_record_titled:
  assumes "extract_product_from_container L c u = Some p"
  shows "\<exists>e t. first_match c container_title_selectors = Some e \<and> t = get_text e \<and> t \<noteq> []
           \<and> map_of p ''title'' = Some (PStr t)"
proof -
  let ?p3 = "set_text_field ''original_price'' clean_price (first_match c original_price_selectors)
      (set_text_field ''price'' clean_price (first_match c container_price_selectors)
      (set_text_field ''title'' (\<lambda>t. t) (first_match c container_title_selectors) container_defaults))"
  from assms obtain q where q: "container_image L c u ?p3 = Some q"
    and t: "if_titled L (container_rating L c q) = Some p"
    by (auto simp: extract_product_from_container_def Let_def split: option.splits)
  from if_titled_Some [OF t] obtain v where p: "p = container_rating L c q"
    and v: "map_of p ''title'' = Some v" "truthy L v" by blast
  have "map_of p ''title'' = map_of ?p3 ''title''"
    by (simp add: p container_rating_title container_image_title [OF q])
  also have "\<dots> = (case first_match c container_title_selectors of
                      Some e \<Rightarrow> Some (PStr (get_text e)) | None \<Rightarrow> Some (PStr []))"
    by (simp add: set_text_field_def map_of_dict_set container_defaults_def split: option.splits)
  finally show ?thesis using v by (auto split: option.splits)
qed

lemma container_untitled_dropped:
  "first_match c container_title_selectors = None \<Longrightarrow> extract_product_from_container L c u = None"
  using container_record_titled [of L c u] by (cases "extract_product_from_container L c u") auto

lemma single_images_title:
  "single_images L sp u product = Some p \<Longrightarrow> map_of p ''title'' = map_of product ''title''"
  by (auto simp: single_images_def map_of_dict_set split: option.splits list.splits)

lemma single_record_titled:
  assumes "extract_single_product L sp u = Some p"
  shows "\<exists>e t. first_match (document sp) single_title_selectors = Some e \<and> t = get_text e \<and> t \<noteq> []
           \<and> map_of p ''title'' = Some (PStr t)"
proof -
  let ?p3 = "set_text_field ''price'' clean_price (first_match (document sp) single_price_selectors)
      (set_text_field ''description'' (take 1000) (first_match (document sp) desc_selectors)
      (set_text_field ''title'' (\<lambda>t. t) (first_match (document sp) single_title_selectors) single_defaults))"
  let ?sku = "set_text_field ''sku'' (\<lambda>t. t) (select_one (document sp) ''.sku, [data-sku]'')"
  from assms obtain q where q: "single_images L sp u ?p3 = Some q"
    and t: "if_titled L (?sku q) = Some p"
    by (auto simp: extract_single_product_def Let_def split: option.splits)
  from if_titled_Some [OF t] obtain v where p: "p = ?sku q"
    and v: "map_of p ''title'' = Some v" "truthy L v" by blast
  have "map_of p ''title'' = map_of q ''title''"
    by (simp add: p set_text_field_def map_of_dict_set split: option.splits)
  also have "\<dots> = map_of ?p3 ''title''" by (rule single_images_title [OF q])
  also have "\<dots> = (case first_match (document sp) single_title_selectors of
                      Some e \<Rightarrow> Some (PStr (get_text e)) | None \<Rightarrow> Some (PStr []))"
    by (simp add: set_text_field_def map_of_dict_set single_defaults_def split: option.splits)
  finally show ?thesis using v by (auto split: option.splits)
qed

text \<open>
  C2. The claim is that every record emitted by any of the three strategies has a
  non-empty title. \<open>container_record_titled\<close>, \<open>container_untitled_dropped\<close> and
  \<open>single_record_titled\<close> above show it for the container and the single-product
  strategy, which both end in \<^verbatim>\<open>return product if product['title'] else None\<close>.
  \<^verbatim>\<open>_parse_json_ld_product\<close> has no such test: for a block of type \<^verbatim>\<open>Product\<close>
  without \<^verbatim>\<open>name\<close> the structured-data strategy emits a record whose title is the
  empty string, and this record is the page's result.
\<close>

theorem json_ld_untitled_emitted:
  "extract_json_ld_products example_lib page_untitled = [untitled_product]
   \<and> page_products example_lib page_untitled shop_url 1 = [untitled_product]
   \<and> map_of untitled_product ''title'' = Some (PStr [])"
proof -
  have a: "extract_json_ld_products example_lib page_untitled = [untitled_product]"
    by (simp add: json_ld_defs page_untitled_def example_lib_def untitled_json_def bare_json_def
        widget_json_def untitled_product_def)
  then have "page_products example_lib page_untitled shop_url 1 = [untitled_product]"
    by (simp add: page_products_def page_strategies_def untitled_product_def)
  with a show ?thesis by (simp add: untitled_product_def)
qed

section \<open>Malformed structured-data blocks\<close>

text \<open>
  A block whose text \<^verbatim>\<open>json.loads\<close> rejects as not JSON is skipped: removing such
  blocks from a page, all of whose script elements have content on which
  \<^verbatim>\<open>json.loads\<close> raises nothing but a decode error, does not change the result. A
  block on which \<^verbatim>\<open>json.loads\<close> raises another exception ends the loop like a script
  element without content does.
\<close>

lemma json_ld_loop_skips_decode_error:
  "json_loads L s = JSONDecodeError \<Longrightarrow>
   json_ld_loop L (Some s # scripts) products = json_ld_loop L scripts products"
  by simp

lemma json_ld_loop_other_exception:
  "json_loads L s = OtherException \<Longrightarrow> json_ld_loop L (Some s # scripts) products = products"
  by simp

lemma json_ld_loop_without_bad_blocks:
  assumes "list_all (\<lambda>b. case b of Some s \<Rightarrow> json_loads L s \<noteq> OtherException | None \<Rightarrow> False) scripts"
  shows "json_ld_loop L
           (filter (\<lambda>b. case b of Some s \<Rightarrow> json_loads L s \<noteq> JSONDecodeError | None \<Rightarrow> True) scripts)
           products
           = json_ld_loop L scripts products"
proof -
  define keep where
    "keep = (\<lambda>b. case b of Some s \<Rightarrow> json_loads L s \<noteq> JSONDecodeError | None \<Rightarrow> True)"
  define fine where
    "fine = (\<lambda>b. case b of Some s \<Rightarrow> json_loads L s \<noteq> OtherException | None \<Rightarrow> False)"
  have k: "keep (Some s) = (json_loads L s \<noteq> JSONDecodeError)" for s
    by (simp add: keep_def)
  have "json_ld_loop L (filter keep scripts) products = json_ld_loop L scripts products"
    if "list_all fine scripts"
    using that
  proof (induction scripts arbitrary: products)
    case Nil
    show ?case by simp
  next
    case (Cons b scripts)
    from Cons.prems obtain s where b: "b = Some s" and s: "json_loads L s \<noteq> OtherException"
      and rest: "list_all fine scripts"
      by (cases b) (auto simp: fine_def)
    note ih = Cons.IH [OF rest]
    show ?case
    proof (cases "json_loads L s")
      case JSONDecodeError
      then show ?thesis by (simp add: b k ih)
    next
      case OtherException
      with s show ?thesis by simp
    next
      case (Loaded data)
      then show ?thesis by (cases data) (simp_all add: b k ih)
    qed
  qed
  with assms show ?thesis by (simp only: keep_def fine_def)
qed

lemma hd_deep_json: "hd deep_json = CHR ''[''"
  by (simp add: deep_json_def)

lemma neq_deep_json: "hd s \<noteq> CHR ''['' \<Longrightarrow> s \<noteq> deep_json"
  using hd_deep_json by auto

lemma deep_json_neq: "hd s \<noteq> CHR ''['' \<Longrightarrow> deep_json \<noteq> s"
  using hd_deep_json by auto

lemma deep_block_ends_extraction:
  "extract_json_ld_products example_lib page_deep_script = []"
  by (simp add: extract_json_ld_products_def page_deep_script_def example_lib_def deep_json_neq
      widget_json_def bare_json_def untitled_json_def)

text \<open>
  C8. The claim is that a malformed or non-JSON block never keeps the remaining blocks of
  the page from being processed. This holds for a block with text that is not JSON (first
  conjunct: the block \<^verbatim>\<open>{bad\<close> is skipped and the product of the next block is
  returned). It fails for a script element without content: its \<^verbatim>\<open>.string\<close> is
  \<^verbatim>\<open>None\<close>, \<^verbatim>\<open>json.loads(None)\<close> raises \<^verbatim>\<open>TypeError\<close>, which the handler
  inside the loop does not catch, and the handler around the loop ends the extraction;
  the well-formed block after it is never read (second conjunct).
\<close>

theorem empty_script_block_ends_extraction:
  "extract_json_ld_products example_lib page_bad_script = [widget_product]
   \<and> extract_json_ld_products example_lib page_empty_script = []"
  by (simp add: json_ld_defs page_bad_script_def page_empty_script_def example_lib_def untitled_json_def
      bare_json_def widget_json_def neq_deep_json widget_product_def)

section \<open>Failures of the job store\<close>

text \<open>
  The two commits of an iteration that stand inside a handler never leave the loop as long
  as the rollback of the handler succeeds; a commit outside a handler that fails does.
\<close>

lemma guarded_commit_recovers: "rollback_ok D site n \<Longrightarrow> guarded_commit D site n = None"
  by (simp add: guarded_commit_def)

lemma plain_commit_raises: "\<not> commit_ok D site n \<Longrightarrow> plain_commit D site n = Some CommitError"
  by (simp add: plain_commit_def)

lemma products_of_page_widget: "page_products example_lib page_widget u n = [widget_product]"
  by (simp add: page_products_def page_strategies_def json_ld_defs page_widget_def example_lib_def
      widget_json_def widget_product_def)

lemma page_widget_has_no_next: "\<not> has_next_page page_widget ''https://shop.example/cat''"
  by (simp add: has_next_page_def page_widget_def next_indicators_def select_one_def select_def)

text \<open>
  C9. The claim is that no failure of a progress update ever aborts a run of
  \<^verbatim>\<open>scrape_products_with_progress\<close>. The commits at the start of a page and after a
  page's products are guarded; the commit when no next page is found and the commit of the
  final update are not. On a one-page site with one product, a store whose final commit
  fails makes the run raise instead of returning the product it has found; with a store
  that works, and without progress tracking, the same site gives that product.
\<close>

theorem final_commit_failure_aborts:
  "scrape_products example_lib one_page_web shop_url
     = ([''https://shop.example/cat''], Inr [widget_product])
   \<and> scrape_products_with_progress example_lib one_page_web running_store shop_url 7
     = ([''https://shop.example/cat''], Inr [widget_product])
   \<and> scrape_products_with_progress example_lib one_page_web failing_final_store shop_url 7
     = ([''https://shop.example/cat''], Inl CommitError)"
proof -
  have u: "build_page_url shop_url 1 = ''https://shop.example/cat''"
    by (simp add: build_page_url_def shop_url_def)
  have w: "one_page_web ''https://shop.example/cat'' = Some page_widget"
    by (simp add: one_page_web_def)
  have a: "scrape_products example_lib one_page_web shop_url
     = ([''https://shop.example/cat''], Inr [widget_product])"
    by (simp add: scrape_products_def scrape_loop.simps [of _ _ _ 1] scrape_page_def Let_def u w
        products_of_page_widget page_widget_has_no_next)
  have b: "scrape_products_with_progress example_lib one_page_web running_store shop_url 7
     = ([''https://shop.example/cat''], Inr [widget_product])"
    by (simp add: scrape_products_with_progress_def progress_loop.simps [of _ _ _ _ _ 1]
        progress_page_def Let_def u w products_of_page_widget page_widget_has_no_next running_store_def stop_requested_def
        job_present_def guarded_commit_def plain_commit_def final_update_def)
  have c: "scrape_products_with_progress example_lib one_page_web failing_final_store shop_url 7
     = ([''https://shop.example/cat''], Inl CommitError)"
    by (simp add: scrape_products_with_progress_def progress_loop.simps [of _ _ _ _ _ 1]
        progress_page_def Let_def u w products_of_page_widget page_widget_has_no_next failing_final_store_def stop_requested_def
        job_present_def guarded_commit_def plain_commit_def final_update_def)
  from a b c show ?thesis by simp
qed

section \<open>The shape of emitted records\<close>

lemma keys_dict_set_present: "k \<in> set (keys d) \<Longrightarrow> keys (dict_set k v d) = keys d"
  by (simp add: keys_dict_set)

lemma keys_set_text_field: "k \<in> set (keys d) \<Longrightarrow> keys (set_text_field k f found d) = keys d"
  by (simp add: set_text_field_def keys_dict_set_present split: option.splits)

lemma keys_container_image:
  "container_image L c u d = Some q \<Longrightarrow> ''main_image_url'' \<in> set (keys d) \<Longrightarrow>
   ''image_urls'' \<in> set (keys d) \<Longrightarrow> keys q = keys d"
  by (auto simp: container_image_def keys_dict_set_present split: option.splits if_splits)

lemma keys_container_rating: "''rating'' \<in> set (keys d) \<Longrightarrow> keys (container_rating L c d) = keys d"
  by (simp add: container_rating_def keys_dict_set_present split: option.splits)

lemma keys_container_defaults:
  "keys (container_defaults :: 'f product) =
     [''title'', ''description'', ''price'', ''original_price'', ''brand'', ''category'',
      ''image_urls'', ''main_image_url'', ''rating'', ''review_count'']"
  by (simp add: keys_def container_defaults_def)

lemma keys_single_defaults:
  "keys (single_defaults :: 'f product) =
     [''title'', ''description'', ''price'', ''original_price'', ''brand'', ''category'', ''sku'',
      ''image_urls'', ''main_image_url'', ''rating'', ''review_count'']"
  by (simp add: keys_def single_defaults_def)

lemma container_record_keys:
  assumes "extract_product_from_container L c u = Some p"
  shows "keys p =
     [''title'', ''description'', ''price'', ''original_price'', ''brand'', ''category'',
      ''image_urls'', ''main_image_url'', ''rating'', ''review_count'']"
proof -
  let ?p1 = "set_text_field ''title'' (\<lambda>t. t) (first_match c container_title_selectors)
               (container_defaults :: 'a product)"
  let ?p2 = "set_text_field ''price'' clean_price (first_match c container_price_selectors) ?p1"
  let ?p3 = "set_text_field ''original_price'' clean_price (first_match c original_price_selectors) ?p2"
  from assms obtain q where q: "container_image L c u ?p3 = Some q"
    and t: "if_titled L (container_rating L c q) = Some p"
    by (auto simp: extract_product_from_container_def Let_def split: option.splits)
  have k1: "keys ?p1 = keys (container_defaults :: 'a product)"
    by (rule keys_set_text_field) (simp add: keys_container_defaults)
  have k2: "keys ?p2 = keys (container_defaults :: 'a product)"
    unfolding k1 [symmetric] by (rule keys_set_text_field) (simp add: k1 keys_container_defaults)
  have k3: "keys ?p3 = keys (container_defaults :: 'a product)"
    unfolding k2 [symmetric] by (rule keys_set_text_field) (simp add: k2 keys_container_defaults)
  have kq: "keys q = keys (container_defaults :: 'a product)"
    unfolding k3 [symmetric] by (rule keys_container_image [OF q]) (simp_all add: k3 keys_container_defaults)
  have "keys p = keys (container_rating L c q)" using if_titled_Some [OF t] by simp
  also have "\<dots> = keys q" by (rule keys_container_rating) (simp add: kq keys_container_defaults)
  finally show ?thesis by (simp add: kq keys_container_defaults)
qed

lemma keys_single_images:
  "single_images L sp u d = Some q \<Longrightarrow> ''main_image_url'' \<in> set (keys d) \<Longrightarrow>
   ''image_urls'' \<in> set (keys d) \<Longrightarrow> keys q = keys d"
  by (auto simp: single_images_def keys_dict_set_present split: option.splits list.splits)

lemma single_record_keys:
  assumes "extract_single_product L sp u = Some p"
  shows "keys p =
     [''title'', ''description'', ''price'', ''original_price'', ''brand'', ''category'', ''sku'',
      ''image_urls'', ''main_image_url'', ''rating'', ''review_count'']"
proof -
  let ?p1 = "set_text_field ''title'' (\<lambda>t. t) (first_match (document sp) single_title_selectors)
               (single_defaults :: 'a product)"
  let ?p2 = "set_text_field ''description'' (take 1000) (first_match (document sp) desc_selectors) ?p1"
  let ?p3 = "set_text_field ''price'' clean_price (first_match (document sp) single_price_selectors) ?p2"
  let ?sku = "set_text_field ''sku'' (\<lambda>t. t) (select_one (document sp) ''.sku, [data-sku]'')"
  from assms obtain q where q: "single_images L sp u ?p3 = Some q"
    and t: "if_titled L (?sku q) = Some p"
    by (auto simp: extract_single_product_def Let_def split: option.splits)
  have k1: "keys ?p1 = keys (single_defaults :: 'a product)"
    by (rule keys_set_text_field) (simp add: keys_single_defaults)
  have k2: "keys ?p2 = keys (single_defaults :: 'a product)"
    unfolding k1 [symmetric] by (rule keys_set_text_field) (simp add: k1 keys_single_defaults)
  have k3: "keys ?p3 = keys (single_defaults :: 'a product)"
    unfolding k2 [symmetric] by (rule keys_set_text_field) (simp add: k2 keys_single_defaults)
  have kq: "keys q = keys (single_defaults :: 'a product)"
    unfolding k3 [symmetric] by (rule keys_single_images [OF q]) (simp_all add: k3 keys_single_defaults)
  have "keys p = keys (?sku q)" using if_titled_Some [OF t] by simp
  also have "\<dots> = keys q" by (rule keys_set_text_field) (simp add: kq keys_single_defaults)
  finally show ?thesis by (simp add: kq keys_single_defaults)
qed

lemma keys_json_ld_offers:
  "json_ld_offers L d product = Some q \<Longrightarrow>
   keys product = [''title'', ''description'', ''brand'', ''sku'', ''image_urls''] \<Longrightarrow>
   keys q = [''title'', ''description'', ''brand'', ''sku'', ''image_urls''] @ offers_keys L d"
  by (auto simp: json_ld_offers_def offers_keys_def Let_def keys_dict_set
      split: if_splits pyval.splits list.splits)

lemma keys_json_ld_images:
  "keys q = [''title'', ''description'', ''brand'', ''sku'', ''image_urls''] @ ks \<Longrightarrow>
   ''main_image_url'' \<notin> set ks \<Longrightarrow>
   keys (json_ld_images d q) = [''title'', ''description'', ''brand'', ''sku'', ''image_urls''] @ ks @ image_keys d"
  by (auto simp: json_ld_images_def image_keys_def keys_dict_set split: option.splits pyval.splits)

lemma keys_json_ld_rating:
  "json_ld_rating L d q = Some p \<Longrightarrow> ''rating'' \<notin> set (keys q) \<Longrightarrow> ''review_count'' \<notin> set (keys q) \<Longrightarrow>
   keys p = keys q @ rating_keys L d"
  by (auto simp: json_ld_rating_def rating_keys_def Let_def keys_dict_set
      split: if_splits pyval.splits)

lemma json_ld_record_keys:
  assumes "parse_json_ld_product L data = Some p"
  shows "\<exists>d. data = PDict d \<and> map_of d ''@type'' = Some (PStr ''Product'')
           \<and> keys p = [''title'', ''description'', ''brand'', ''sku'', ''image_urls'']
                        @ offers_keys L d @ image_keys d @ rating_keys L d"
proof -
  from assms obtain d where d: "data = PDict d" and ty: "map_of d ''@type'' = Some (PStr ''Product'')"
    by (auto simp: parse_json_ld_product_def split: pyval.splits if_splits)
  let ?p0 = "[(''title'', dict_get d ''name'' (PStr [])),
                (''description'', dict_get d ''description'' (PStr [])),
                (''brand'', brand_of L d),
                (''sku'', dict_get d ''sku'' (PStr [])),
                (''image_urls'', PList [])]"
  from assms d ty obtain q where q: "json_ld_offers L d ?p0 = Some q"
    and r: "json_ld_rating L d (json_ld_images d q) = Some p"
    by (auto simp: parse_json_ld_product_def Let_def split: option.splits)
  have k0: "keys ?p0 = [''title'', ''description'', ''brand'', ''sku'', ''image_urls'']"
    by (simp add: keys_def)
  note kq = keys_json_ld_offers [OF q k0]
  have ki: "keys (json_ld_images d q) =
      [''title'', ''description'', ''brand'', ''sku'', ''image_urls''] @ offers_keys L d @ image_keys d"
    by (rule keys_json_ld_images [OF kq]) (simp add: offers_keys_def)
  have "keys p = keys (json_ld_images d q) @ rating_keys L d"
    by (rule keys_json_ld_rating [OF r])
       (simp_all add: ki offers_keys_def image_keys_def split: option.splits pyval.splits)
  with ki d ty show ?thesis by simp
qed

lemma map_of_set_text_field:
  "map_of (set_text_field k f found d) k' =
     (if k' = k then (case found of Some e \<Rightarrow> Some (PStr (f (get_text e))) | None \<Rightarrow> map_of d k')
      else map_of d k')"
  by (simp add: set_text_field_def map_of_dict_set split: option.splits)

lemma container_image_result:
  "container_image L c u d = Some q \<Longrightarrow>
     (case container_img_src c of
        None \<Rightarrow> q = d
      | Some src \<Rightarrow>
          (\<exists>url. urljoin L u src = Some url
                \<and> q = dict_set ''image_urls'' (PList [PStr url]) (dict_set ''main_image_url'' (PStr url) d)))"
  by (auto simp: container_image_def container_img_src_def nonempty_src_def
      split: option.splits if_splits)

lemma container_rating_result:
  "container_rating L c d =
     (case rating_token c of
        None \<Rightarrow> d
      | Some tok \<Rightarrow> dict_set ''rating'' (PFloat (to_float L tok)) d)"
  by (simp add: container_rating_def rating_token_def split: option.splits)

lemma container_record_fields:
  assumes "extract_product_from_container L c u = Some p"
  shows "map_of p ''description'' = Some (PStr []) \<and> map_of p ''brand'' = Some (PStr [])
       \<and> map_of p ''category'' = Some (PStr []) \<and> map_of p ''review_count'' = Some PNone
       \<and> map_of p ''price'' =
            Some (PStr (case first_match c container_price_selectors of
                          Some e \<Rightarrow> clean_price (get_text e) | None \<Rightarrow> []))
       \<and> map_of p ''original_price'' =
            Some (PStr (case first_match c original_price_selectors of
                          Some e \<Rightarrow> clean_price (get_text e) | None \<Rightarrow> []))
       \<and> (case container_img_src c of
             None \<Rightarrow> map_of p ''main_image_url'' = Some (PStr [])
                      \<and> map_of p ''image_urls'' = Some (PList [])
           | Some src \<Rightarrow>
               (\<exists>url. urljoin L u src = Some url
                    \<and> map_of p ''main_image_url'' = Some (PStr url)
                    \<and> map_of p ''image_urls'' = Some (PList [PStr url])))
       \<and> map_of p ''rating'' =
            Some (case rating_token c of None \<Rightarrow> PNone | Some tok \<Rightarrow> PFloat (to_float L tok))"
proof -
  let ?p3 = "set_text_field ''original_price'' clean_price (first_match c original_price_selectors)
      (set_text_field ''price'' clean_price (first_match c container_price_selectors)
      (set_text_field ''title'' (\<lambda>t. t) (first_match c container_title_selectors)
         (container_defaults :: 'a product)))"
  from assms obtain q where q: "container_image L c u ?p3 = Some q"
    and t: "if_titled L (container_rating L c q) = Some p"
    by (auto simp: extract_product_from_container_def Let_def split: option.splits)
  have p: "p = container_rating L c q" using if_titled_Some [OF t] by simp
  note img = container_image_result [OF q]
  have base: "map_of ?p3 ''description'' = Some (PStr [])" "map_of ?p3 ''brand'' = Some (PStr [])"
    "map_of ?p3 ''category'' = Some (PStr [])" "map_of ?p3 ''review_count'' = Some PNone"
    "map_of ?p3 ''rating'' = Some PNone" "map_of ?p3 ''main_image_url'' = Some (PStr [])"
    "map_of ?p3 ''image_urls'' = Some (PList [])"
    "map_of ?p3 ''price'' = Some (PStr (case first_match c container_price_selectors of
                          Some e \<Rightarrow> clean_price (get_text e) | None \<Rightarrow> []))"
    "map_of ?p3 ''original_price'' = Some (PStr (case first_match c original_price_selectors of
                          Some e \<Rightarrow> clean_price (get_text e) | None \<Rightarrow> []))"
    by (simp_all add: map_of_set_text_field container_defaults_def split: option.splits)
  show ?thesis
  proof (cases "container_img_src c")
    case None
    with img have "q = ?p3" by simp
    then show ?thesis
      unfolding p container_rating_result
      by (simp add: None base map_of_dict_set split: option.splits)
  next
    case (Some src)
    with img obtain url where url: "urljoin L u src = Some url"
      and qq: "q = dict_set ''image_urls'' (PList [PStr url]) (dict_set ''main_image_url'' (PStr url) ?p3)"
      by auto
    show ?thesis
      unfolding p container_rating_result qq
      by (simp add: Some url base map_of_dict_set split: option.splits)
  qed
qed

lemma gallery_urls_sources:
  "gallery_urls L u imgs = Some us \<longleftrightarrow>
     map (urljoin L u) (List.map_filter nonempty_src imgs) = map Some us"
proof (induction imgs arbitrary: us)
  case Nil
  show ?case by (auto simp: List.map_filter_simps)
next
  case (Cons img imgs)
  show ?case
  proof (cases "nonempty_src img")
    case None
    then have "gallery_urls L u (img # imgs) = gallery_urls L u imgs"
      by (auto simp: nonempty_src_def split: option.splits if_splits)
    with None Cons show ?thesis by (simp add: List.map_filter_simps)
  next
    case (Some src)
    then have g: "gallery_urls L u (img # imgs) =
        (case urljoin L u src of None \<Rightarrow> None
         | Some full_url \<Rightarrow> map_option ((#) full_url) (gallery_urls L u imgs))"
      by (auto simp: nonempty_src_def split: option.splits if_splits)
    show ?thesis
      unfolding g using Some Cons
      by (cases "urljoin L u src"; cases us) (auto simp: List.map_filter_simps)
  qed
qed

lemma single_images_result:
  "single_images L sp u d = Some q \<Longrightarrow>
     \<exists>us. map (urljoin L u) (gallery_sources sp) = map Some us
        \<and> q = (case us of [] \<Rightarrow> d
               | x # _ \<Rightarrow> dict_set ''main_image_url'' (PStr x)
                           (dict_set ''image_urls'' (PList (map PStr us)) d))"
proof (cases "first_nonempty (document sp) img_selectors")
  case Nil
  assume "single_images L sp u d = Some q"
  with Nil have "q = d" by (simp add: single_images_def)
  with Nil show ?thesis by (intro exI [of _ "[]"]) (simp add: gallery_sources_def List.map_filter_simps)
next
  case (Cons i rest)
  assume a: "single_images L sp u d = Some q"
  with Cons obtain us where us: "gallery_urls L u (take 5 (i # rest)) = Some us"
    and q: "q = (case us of [] \<Rightarrow> d
               | x # _ \<Rightarrow> dict_set ''main_image_url'' (PStr x)
                           (dict_set ''image_urls'' (PList (map PStr us)) d))"
    by (auto simp: single_images_def split: option.splits list.splits)
  have "gallery_sources sp = List.map_filter nonempty_src (take 5 (i # rest))"
    by (simp only: gallery_sources_def Cons)
  with us have "map (urljoin L u) (gallery_sources sp) = map Some us"
    by (simp only: gallery_urls_sources)
  with q show ?thesis by blast
qed

lemma single_record_fields:
  assumes "extract_single_product L sp u = Some p"
  shows "map_of p ''original_price'' = Some (PStr []) \<and> map_of p ''brand'' = Some (PStr [])
       \<and> map_of p ''category'' = Some (PStr []) \<and> map_of p ''rating'' = Some PNone
       \<and> map_of p ''review_count'' = Some PNone
       \<and> map_of p ''description'' =
            Some (PStr (case first_match (document sp) desc_selectors of
                          Some e \<Rightarrow> take 1000 (get_text e) | None \<Rightarrow> []))
       \<and> map_of p ''price'' =
            Some (PStr (case first_match (document sp) single_price_selectors of
                          Some e \<Rightarrow> clean_price (get_text e) | None \<Rightarrow> []))
       \<and> map_of p ''sku'' =
            Some (PStr (case select_one (document sp) ''.sku, [data-sku]'' of
                          Some e \<Rightarrow> get_text e | None \<Rightarrow> []))
       \<and> (\<exists>us. map (urljoin L u) (gallery_sources sp) = map Some us
              \<and> map_of p ''image_urls'' = Some (PList (map PStr us))
              \<and> map_of p ''main_image_url'' = Some (PStr (case us of [] \<Rightarrow> [] | x # _ \<Rightarrow> x)))"
proof -
  define p3 :: "'a product" where
    "p3 = set_text_field ''price'' clean_price (first_match (document sp) single_price_selectors)
      (set_text_field ''description'' (take 1000) (first_match (document sp) desc_selectors)
      (set_text_field ''title'' (\<lambda>t. t) (first_match (document sp) single_title_selectors)
         single_defaults))"
  let ?sku = "set_text_field ''sku'' (\<lambda>t. t) (select_one (document sp) ''.sku, [data-sku]'')"
  from assms obtain q where q: "single_images L sp u p3 = Some q"
    and t: "if_titled L (?sku q) = Some p"
    by (auto simp: extract_single_product_def Let_def p3_def split: option.splits)
  have p: "p = ?sku q" using if_titled_Some [OF t] by simp
  from single_images_result [OF q] obtain us where
    src: "map (urljoin L u) (gallery_sources sp) = map Some us"
    and qq: "q = (case us of [] \<Rightarrow> p3
               | x # _ \<Rightarrow> dict_set ''main_image_url'' (PStr x)
                           (dict_set ''image_urls'' (PList (map PStr us)) p3))"
    by blast
  have base: "map_of p3 ''original_price'' = Some (PStr [])" "map_of p3 ''brand'' = Some (PStr [])"
    "map_of p3 ''category'' = Some (PStr [])" "map_of p3 ''review_count'' = Some PNone"
    "map_of p3 ''rating'' = Some PNone" "map_of p3 ''main_image_url'' = Some (PStr [])"
    "map_of p3 ''image_urls'' = Some (PList [])" "map_of p3 ''sku'' = Some (PStr [])"
    "map_of p3 ''price'' = Some (PStr (case first_match (document sp) single_price_selectors of
                          Some e \<Rightarrow> clean_price (get_text e) | None \<Rightarrow> []))"
    "map_of p3 ''description'' = Some (PStr (case first_match (document sp) desc_selectors of
                          Some e \<Rightarrow> take 1000 (get_text e) | None \<Rightarrow> []))"
    unfolding p3_def
    by (simp_all add: map_of_set_text_field single_defaults_def split: option.splits)
  have fields: "map_of p ''original_price'' = Some (PStr []) \<and> map_of p ''brand'' = Some (PStr [])
       \<and> map_of p ''category'' = Some (PStr []) \<and> map_of p ''rating'' = Some PNone
       \<and> map_of p ''review_count'' = Some PNone
       \<and> map_of p ''description'' =
            Some (PStr (case first_match (document sp) desc_selectors of
                          Some e \<Rightarrow> take 1000 (get_text e) | None \<Rightarrow> []))
       \<and> map_of p ''price'' =
            Some (PStr (case first_match (document sp) single_price_selectors of
                          Some e \<Rightarrow> clean_price (get_text e) | None \<Rightarrow> []))
       \<and> map_of p ''sku'' =
            Some (PStr (case select_one (document sp) ''.sku, [data-sku]'' of
                          Some e \<Rightarrow> get_text e | None \<Rightarrow> []))
       \<and> map_of p ''image_urls'' = Some (PList (map PStr us))
       \<and> map_of p ''main_image_url'' = Some (PStr (case us of [] \<Rightarrow> [] | x # _ \<Rightarrow> x))"
    unfolding p qq
    by (cases us; cases "select_one (document sp) ''.sku, [data-sku]''")
       (simp_all add: base map_of_set_text_field map_of_dict_set)
  with src show ?thesis by blast
qed

text \<open>
  C10, as stated, fails: the claim is that every emitted record has every field of the
  record shape, with a default where nothing was located, and that the records of all
  strategies have the same keys. A structured-data block with only a type and a name gives
  a record with five keys: \<^verbatim>\<open>price\<close>, \<^verbatim>\<open>currency\<close>, \<^verbatim>\<open>availability\<close>,
  \<^verbatim>\<open>main_image_url\<close>, \<^verbatim>\<open>rating\<close> and \<^verbatim>\<open>review_count\<close> are not keys of it.
  A container record has neither \<^verbatim>\<open>sku\<close> nor \<^verbatim>\<open>currency\<close>, a single-product
  record has neither \<^verbatim>\<open>currency\<close> nor \<^verbatim>\<open>availability\<close>, and the key lists of the
  three records differ from one another.
\<close>

theorem json_ld_record_omits_fields:
  "extract_json_ld_products example_lib page_bare = [bare_product]
   \<and> keys bare_product = [''title'', ''description'', ''brand'', ''sku'', ''image_urls'']
   \<and> map_of bare_product ''price'' = None \<and> map_of bare_product ''currency'' = None
   \<and> map_of bare_product ''availability'' = None \<and> map_of bare_product ''main_image_url'' = None
   \<and> map_of bare_product ''rating'' = None \<and> map_of bare_product ''review_count'' = None
   \<and> extract_container_products example_lib page_listing shop_url = [gadget_product]
   \<and> map_of gadget_product ''sku'' = None \<and> map_of gadget_product ''currency'' = None
   \<and> keys gadget_product \<noteq> keys bare_product
   \<and> extract_single_product example_lib page_detail shop_url = Some gizmo_product
   \<and> map_of gizmo_product ''currency'' = None \<and> map_of gizmo_product ''availability'' = None
   \<and> keys gadget_product \<noteq> keys gizmo_product"
proof -
  have "extract_json_ld_products example_lib page_bare = [bare_product]"
    by (simp add: json_ld_defs page_bare_def example_lib_def bare_json_def widget_json_def
        bare_product_def)
  then show ?thesis
    by (simp add: containers_of_page_listing single_of_page_detail)
       (simp add: keys_def bare_product_def gadget_product_def gizmo_product_def)
qed

text \<open>
  C10, amended. Each strategy gives its records a key list of its own. A container record
  has exactly the ten keys title, description, price, original_price, brand, category,
  image_urls, main_image_url, rating, review_count; a single-product record has these and
  sku. In both, every field holds what was located for it and its default (empty string,
  \<^verbatim>\<open>None\<close> or empty list) when nothing was located: when no selector of the field
  matched, and also when the first \<^verbatim>\<open>img\<close> has no source, when the rating element has
  no number in its text, and when no gallery image has a source. Description, brand,
  category and review_count of a container record, and original_price, brand, category,
  rating and review_count of a single-product record, are never located and always hold
  their defaults. A structured-data record has at least the keys title, description,
  brand, sku, image_urls, as its first five.
\<close>

theorem record_shapes:
  "(extract_product_from_container L c u = Some p \<longrightarrow>
      keys p = [''title'', ''description'', ''price'', ''original_price'', ''brand'', ''category'',
                ''image_urls'', ''main_image_url'', ''rating'', ''review_count'']
      \<and> (\<exists>e. first_match c container_title_selectors = Some e \<and> get_text e \<noteq> []
              \<and> map_of p ''title'' = Some (PStr (get_text e)))
      \<and> map_of p ''description'' = Some (PStr []) \<and> map_of p ''brand'' = Some (PStr [])
      \<and> map_of p ''category'' = Some (PStr []) \<and> map_of p ''review_count'' = Some PNone
      \<and> map_of p ''price'' =
            Some (PStr (case first_match c container_price_selectors of
                          Some e \<Rightarrow> clean_price (get_text e) | None \<Rightarrow> []))
      \<and> map_of p ''original_price'' =
            Some (PStr (case first_match c original_price_selectors of
                          Some e \<Rightarrow> clean_price (get_text e) | None \<Rightarrow> []))
      \<and> (case container_img_src c of
             None \<Rightarrow> map_of p ''main_image_url'' = Some (PStr [])
                      \<and> map_of p ''image_urls'' = Some (PList [])
           | Some src \<Rightarrow>
               (\<exists>url. urljoin L u src = Some url
                    \<and> map_of p ''main_image_url'' = Some (PStr url)
                    \<and> map_of p ''image_urls'' = Some (PList [PStr url])))
      \<and> map_of p ''rating'' =
            Some (case rating_token c of None \<Rightarrow> PNone | Some tok \<Rightarrow> PFloat (to_float L tok)))
   \<and> (extract_single_product L sp u = Some p \<longrightarrow>
      keys p = [''title'', ''description'', ''price'', ''original_price'', ''brand'', ''category'',
                ''sku'', ''image_urls'', ''main_image_url'', ''rating'', ''review_count'']
      \<and> (\<exists>e. first_match (document sp) single_title_selectors = Some e \<and> get_text e \<noteq> []
              \<and> map_of p ''title'' = Some (PStr (get_text e)))
      \<and> map_of p ''original_price'' = Some (PStr []) \<and> map_of p ''brand'' = Some (PStr [])
      \<and> map_of p ''category'' = Some (PStr []) \<and> map_of p ''rating'' = Some PNone
      \<and> map_of p ''review_count'' = Some PNone
      \<and> map_of p ''description'' =
            Some (PStr (case first_match (document sp) desc_selectors of
                          Some e \<Rightarrow> take 1000 (get_text e) | None \<Rightarrow> []))
      \<and> map_of p ''price'' =
            Some (PStr (case first_match (document sp) single_price_selectors of
                          Some e \<Rightarrow> clean_price (get_text e) | None \<Rightarrow> []))
      \<and> map_of p ''sku'' =
            Some (PStr (case select_one (document sp) ''.sku, [data-sku]'' of
                          Some e \<Rightarrow> get_text e | None \<Rightarrow> []))
      \<and> (\<exists>us. map (urljoin L u) (gallery_sources sp) = map Some us
              \<and> map_of p ''image_urls'' = Some (PList (map PStr us))
              \<and> map_of p ''main_image_url'' = Some (PStr (case us of [] \<Rightarrow> [] | x # _ \<Rightarrow> x))))
   \<and> (parse_json_ld_product L data = Some p \<longrightarrow>
      take 5 (keys p) = [''title'', ''description'', ''brand'', ''sku'', ''image_urls''])"
proof (intro conjI)
  show "extract_product_from_container L c u = Some p \<longrightarrow>
      keys p = [''title'', ''description'', ''price'', ''original_price'', ''brand'', ''category'',
                ''image_urls'', ''main_image_url'', ''rating'', ''review_count'']
      \<and> (\<exists>e. first_match c container_title_selectors = Some e \<and> get_text e \<noteq> []
              \<and> map_of p ''title'' = Some (PStr (get_text e)))
      \<and> map_of p ''description'' = Some (PStr []) \<and> map_of p ''brand'' = Some (PStr [])
      \<and> map_of p ''category'' = Some (PStr []) \<and> map_of p ''review_count'' = Some PNone
      \<and> map_of p ''price'' =
            Some (PStr (case first_match c container_price_selectors of
                          Some e \<Rightarrow> clean_price (get_text e) | None \<Rightarrow> []))
      \<and> map_of p ''original_price'' =
            Some (PStr (case first_match c original_price_selectors of
                          Some e \<Rightarrow> clean_price (get_text e) | None \<Rightarrow> []))
      \<and> (case container_img_src c of
             None \<Rightarrow> map_of p ''main_image_url'' = Some (PStr [])
                      \<and> map_of p ''image_urls'' = Some (PList [])
           | Some src \<Rightarrow>
               (\<exists>url. urljoin L u src = Some url
                    \<and> map_of p ''main_image_url'' = Some (PStr url)
                    \<and> map_of p ''image_urls'' = Some (PList [PStr url])))
      \<and> map_of p ''rating'' =
            Some (case rating_token c of None \<Rightarrow> PNone | Some tok \<Rightarrow> PFloat (to_float L tok))"
  proof
    assume a: "extract_product_from_container L c u = Some p"
    from container_record_titled [OF a]
    have t: "\<exists>e. first_match c container_title_selectors = Some e \<and> get_text e \<noteq> []
              \<and> map_of p ''title'' = Some (PStr (get_text e))" by blast
    from container_record_keys [OF a] t container_record_fields [OF a]
    show "keys p = [''title'', ''description'', ''price'', ''original_price'', ''brand'', ''category'',
                ''image_urls'', ''main_image_url'', ''rating'', ''review_count'']
      \<and> (\<exists>e. first_match c container_title_selectors = Some e \<and> get_text e \<noteq> []
              \<and> map_of p ''title'' = Some (PStr (get_text e)))
      \<and> map_of p ''description'' = Some (PStr []) \<and> map_of p ''brand'' = Some (PStr [])
      \<and> map_of p ''category'' = Some (PStr []) \<and> map_of p ''review_count'' = Some PNone
      \<and> map_of p ''price'' =
            Some (PStr (case first_match c container_price_selectors of
                          Some e \<Rightarrow> clean_price (get_text e) | None \<Rightarrow> []))
      \<and> map_of p ''original_price'' =
            Some (PStr (case first_match c original_price_selectors of
                          Some e \<Rightarrow> clean_price (get_text e) | None \<Rightarrow> []))
      \<and> (case container_img_src c of
             None \<Rightarrow> map_of p ''main_image_url'' = Some (PStr [])
                      \<and> map_of p ''image_urls'' = Some (PList [])
           | Some src \<Rightarrow>
               (\<exists>url. urljoin L u src = Some url
                    \<and> map_of p ''main_image_url'' = Some (PStr url)
                    \<and> map_of p ''image_urls'' = Some (PList [PStr url])))
      \<and> map_of p ''rating'' =
            Some (case rating_token c of None \<Rightarrow> PNone | Some tok \<Rightarrow> PFloat (to_float L tok))"
      by (intro conjI) (elim conjE, assumption)+
  qed
next
  show "extract_single_product L sp u = Some p \<longrightarrow>
      keys p = [''title'', ''description'', ''price'', ''original_price'', ''brand'', ''category'',
                ''sku'', ''image_urls'', ''main_image_url'', ''rating'', ''review_count'']
      \<and> (\<exists>e. first_match (document sp) single_title_selectors = Some e \<and> get_text e \<noteq> []
              \<and> map_of p ''title'' = Some (PStr (get_text e)))
      \<and> map_of p ''original_price'' = Some (PStr []) \<and> map_of p ''brand'' = Some (PStr [])
      \<and> map_of p ''category'' = Some (PStr []) \<and> map_of p ''rating'' = Some PNone
      \<and> map_of p ''review_count'' = Some PNone
      \<and> map_of p ''description'' =
            Some (PStr (case first_match (document sp) desc_selectors of
                          Some e \<Rightarrow> take 1000 (get_text e) | None \<Rightarrow> []))
      \<and> map_of p ''price'' =
            Some (PStr (case first_match (document sp) single_price_selectors of
                          Some e \<Rightarrow> clean_price (get_text e) | None \<Rightarrow> []))
      \<and> map_of p ''sku'' =
            Some (PStr (case select_one (document sp) ''.sku, [data-sku]'' of
                          Some e \<Rightarrow> get_text e | None \<Rightarrow> []))
      \<and> (\<exists>us. map (urljoin L u) (gallery_sources sp) = map Some us
              \<and> map_of p ''image_urls'' = Some (PList (map PStr us))
              \<and> map_of p ''main_image_url'' = Some (PStr (case us of [] \<Rightarrow> [] | x # _ \<Rightarrow> x)))"
  proof
    assume a: "extract_single_product L sp u = Some p"
    from single_record_titled [OF a]
    have t: "\<exists>e. first_match (document sp) single_title_selectors = Some e \<and> get_text e \<noteq> []
              \<and> map_of p ''title'' = Some (PStr (get_text e))" by blast
    from single_record_keys [OF a] t single_record_fields [OF a]
    show "keys p = [''title'', ''description'', ''price'', ''original_price'', ''brand'', ''category'',
                ''sku'', ''image_urls'', ''main_image_url'', ''rating'', ''review_count'']
      \<and> (\<exists>e. first_match (document sp) single_title_selectors = Some e \<and> get_text e \<noteq> []
              \<and> map_of p ''title'' = Some (PStr (get_text e)))
      \<and> map_of p ''original_price'' = Some (PStr []) \<and> map_of p ''brand'' = Some (PStr [])
      \<and> map_of p ''category'' = Some (PStr []) \<and> map_of p ''rating'' = Some PNone
      \<and> map_of p ''review_count'' = Some PNone
      \<and> map_of p ''description'' =
            Some (PStr (case first_match (document sp) desc_selectors of
                          Some e \<Rightarrow> take 1000 (get_text e) | None \<Rightarrow> []))
      \<and> map_of p ''price'' =
            Some (PStr (case first_match (document sp) single_price_selectors of
                          Some e \<Rightarrow> clean_price (get_text e) | None \<Rightarrow> []))
      \<and> map_of p ''sku'' =
            Some (PStr (case select_one (document sp) ''.sku, [data-sku]'' of
                          Some e \<Rightarrow> get_text e | None \<Rightarrow> []))
      \<and> (\<exists>us. map (urljoin L u) (gallery_sources sp) = map Some us
              \<and> map_of p ''image_urls'' = Some (PList (map PStr us))
              \<and> map_of p ''main_image_url'' = Some (PStr (case us of [] \<Rightarrow> [] | x # _ \<Rightarrow> x)))"
      by (intro conjI) (elim conjE, assumption)+
  qed
next
  show "parse_json_ld_product L data = Some p \<longrightarrow>
      take 5 (keys p) = [''title'', ''description'', ''brand'', ''sku'', ''image_urls'']"
  proof
    assume a: "parse_json_ld_product L data = Some p"
    from json_ld_record_keys [OF a]
    show "take 5 (keys p) = [''title'', ''description'', ''brand'', ''sku'', ''image_urls'']" by auto
  qed
qed

lemmas container_eval_defs = select_def
      extract_product_from_container_def container_defaults_def set_text_field_def
      container_title_selectors_def container_price_selectors_def original_price_selectors_def
      select_one_def container_image_def container_rating_def if_titled_def dict_set_def
      clean_price_def price_char_def is_digit_def py_strip_def is_space_def img_src_of_def attr_def

lemma container_plain_tile:
  "extract_product_from_container example_lib plain_tile u = Some plain_product"
  by (simp add: plain_tile_def example_lib_def plain_product_def container_eval_defs)

lemma container_rated_tile:
  "extract_product_from_container example_lib rated_tile u = Some rated_product"
  by (simp add: rated_tile_def example_lib_def rated_product_def container_eval_defs)

lemma located_plain_tile: "container_img_src plain_tile = None" "rating_token plain_tile = None"
  by (simp_all add: plain_tile_def container_img_src_def rating_token_def nonempty_src_def
      img_src_of_def attr_def select_one_def select_def is_digit_def)

lemma located_rated_tile:
  "container_img_src rated_tile = Some ''/img/rated.png''" "rating_token rated_tile = Some ''4.5''"
  by (simp_all add: rated_tile_def container_img_src_def rating_token_def nonempty_src_def
      img_src_of_def attr_def select_one_def select_def is_digit_def)

lemma single_of_page_gallery:
  "extract_single_product example_lib page_gallery u = Some gizmo_product"
  by (simp add: extract_single_product_def page_gallery_def example_lib_def gizmo_product_def
      single_defaults_def set_text_field_def
      single_title_selectors_def desc_selectors_def single_price_selectors_def img_selectors_def
      select_one_def select_def single_images_def if_titled_def dict_set_def img_src_of_def attr_def)

lemma sources_of_page_gallery: "gallery_sources page_gallery = []"
  by (simp add: gallery_sources_def page_gallery_def img_selectors_def select_def nonempty_src_def
      img_src_of_def attr_def List.map_filter_simps)

lemma parse_bare:
  "parse_json_ld_product example_lib (PDict [(''@type'', PStr ''Product''), (''name'', PStr ''Widget'')])
     = Some bare_product"
  by (simp add: json_ld_defs bare_product_def example_lib_def)

theorem record_shapes_witness:
  "extract_product_from_container example_lib plain_tile shop_url = Some plain_product
   \<and> container_img_src plain_tile = None \<and> rating_token plain_tile = None
   \<and> map_of plain_product ''main_image_url'' = Some (PStr [])
   \<and> map_of plain_product ''image_urls'' = Some (PList [])
   \<and> map_of plain_product ''rating'' = Some PNone
   \<and> extract_product_from_container example_lib rated_tile shop_url = Some rated_product
   \<and> container_img_src rated_tile = Some ''/img/rated.png''
   \<and> rating_token rated_tile = Some ''4.5''
   \<and> map_of rated_product ''main_image_url'' = Some (PStr ''/img/rated.png'')
   \<and> map_of rated_product ''rating'' = Some (PFloat ''4.5'')
   \<and> keys rated_product =
        [''title'', ''description'', ''price'', ''original_price'', ''brand'', ''category'',
         ''image_urls'', ''main_image_url'', ''rating'', ''review_count'']
   \<and> extract_single_product example_lib page_gallery shop_url = Some gizmo_product
   \<and> gallery_sources page_gallery = []
   \<and> map_of gizmo_product ''main_image_url'' = Some (PStr [])
   \<and> map_of gizmo_product ''image_urls'' = Some (PList [])
   \<and> keys gizmo_product =
        [''title'', ''description'', ''price'', ''original_price'', ''brand'', ''category'',
         ''sku'', ''image_urls'', ''main_image_url'', ''rating'', ''review_count'']
   \<and> parse_json_ld_product example_lib (PDict [(''@type'', PStr ''Product''), (''name'', PStr ''Widget'')])
        = Some bare_product
   \<and> take 5 (keys bare_product) = [''title'', ''description'', ''brand'', ''sku'', ''image_urls'']"
  using record_shapes [where L=example_lib and c=plain_tile and u=shop_url and p=plain_product]
    record_shapes [where L=example_lib and c=rated_tile and u=shop_url and p=rated_product]
    record_shapes [where L=example_lib and sp=page_gallery and u=shop_url and p=gizmo_product]
    record_shapes [where L=example_lib and p=bare_product
        and data="PDict [(''@type'', PStr ''Product''), (''name'', PStr ''Widget'')]"]
  by (simp add: container_plain_tile container_rated_tile located_plain_tile located_rated_tile
      single_of_page_gallery sources_of_page_gallery parse_bare)
     (simp add: example_lib_def)

end
